theory Spec2Isabelle
  imports Main "HOL-Library.Word"
begin

unbundle bit_operations_syntax

section \<open>Data model of CameraHardware.cpp\<close>

subsection \<open>Status codes, message kinds and fixed geometry\<close>

text \<open>
  The status codes of \<^verbatim>\<open>status_t\<close> are declared in a header outside the source file;
  they are kept symbolic. \<^verbatim>\<open>setParameters\<close> returns the literal \<^verbatim>\<open>-1\<close>, which gets a
  constructor of its own.
\<close>

datatype status_t = NO_ERROR | UNKNOWN_ERROR | BAD_VALUE | INVALID_OPERATION | STATUS_MINUS_ONE

text \<open>
  Modelled from the spec: the enumeration of message kinds is declared in a header that
  is not part of the source file. Section 4.3 and section 6 of the spec make each kind
  one bit of the 32-bit mask \<^verbatim>\<open>mMsgEnabled\<close>; the bit positions are the ones of the
  Android camera header.
\<close>

definition CAMERA_MSG_ERROR :: "32 word" where "CAMERA_MSG_ERROR = 0x001"
definition CAMERA_MSG_SHUTTER :: "32 word" where "CAMERA_MSG_SHUTTER = 0x002"
definition CAMERA_MSG_FOCUS :: "32 word" where "CAMERA_MSG_FOCUS = 0x004"
definition CAMERA_MSG_ZOOM :: "32 word" where "CAMERA_MSG_ZOOM = 0x008"
definition CAMERA_MSG_PREVIEW_FRAME :: "32 word" where "CAMERA_MSG_PREVIEW_FRAME = 0x010"
definition CAMERA_MSG_VIDEO_FRAME :: "32 word" where "CAMERA_MSG_VIDEO_FRAME = 0x020"
definition CAMERA_MSG_POSTVIEW_FRAME :: "32 word" where "CAMERA_MSG_POSTVIEW_FRAME = 0x040"
definition CAMERA_MSG_RAW_IMAGE :: "32 word" where "CAMERA_MSG_RAW_IMAGE = 0x080"
definition CAMERA_MSG_COMPRESSED_IMAGE :: "32 word" where "CAMERA_MSG_COMPRESSED_IMAGE = 0x100"

definition VIDEO_DEVICE :: string where "VIDEO_DEVICE = ''/dev/video0''"
definition MIN_WIDTH :: int where "MIN_WIDTH = 640"
definition MIN_HEIGHT :: int where "MIN_HEIGHT = 480"

datatype pixel_format = V4L2_PIX_FMT_YUYV

definition PIXEL_FORMAT :: pixel_format where "PIXEL_FORMAT = V4L2_PIX_FMT_YUYV"

subsection \<open>The parameter container\<close>

text \<open>
  Modelled from the spec: class \<^verbatim>\<open>CameraParameters\<close> is declared outside the source file.
  Section 3 of the spec gives its content: preview size, preview frame rate, preview
  pixel format, still-picture size and still-picture format. The getters and setters
  used by the source file read and write one field each. A format with no characters
  stands for one that was never set or was set to the empty string.
\<close>

record CameraParameters =
  preview_size :: "int \<times> int"
  preview_frame_rate :: int
  preview_format :: string
  picture_size :: "int \<times> int"
  picture_format :: string

text \<open>The default-constructed container \<^verbatim>\<open>CameraParameters p;\<close>: nothing is set yet.\<close>

definition CameraParameters_empty :: CameraParameters where
  "CameraParameters_empty =
     \<lparr>preview_size = (-1, -1), preview_frame_rate = -1, preview_format = [],
      picture_size = (-1, -1), picture_format = []\<rparr>"

definition setPreviewSize :: "int \<Rightarrow> int \<Rightarrow> CameraParameters \<Rightarrow> CameraParameters" where
  "setPreviewSize w h p = p\<lparr>preview_size := (w, h)\<rparr>"

definition setPreviewFrameRate :: "int \<Rightarrow> CameraParameters \<Rightarrow> CameraParameters" where
  "setPreviewFrameRate fps p = p\<lparr>preview_frame_rate := fps\<rparr>"

definition setPreviewFormat :: "string \<Rightarrow> CameraParameters \<Rightarrow> CameraParameters" where
  "setPreviewFormat f p = p\<lparr>preview_format := f\<rparr>"

definition setPictureSize :: "int \<Rightarrow> int \<Rightarrow> CameraParameters \<Rightarrow> CameraParameters" where
  "setPictureSize w h p = p\<lparr>picture_size := (w, h)\<rparr>"

definition setPictureFormat :: "string \<Rightarrow> CameraParameters \<Rightarrow> CameraParameters" where
  "setPictureFormat f p = p\<lparr>picture_format := f\<rparr>"

definition getPreviewSize :: "CameraParameters \<Rightarrow> int \<times> int" where
  "getPreviewSize p = preview_size p"

definition getPreviewFrameRate :: "CameraParameters \<Rightarrow> int" where
  "getPreviewFrameRate p = preview_frame_rate p"

text \<open>
  The getters of the two formats return a \<^verbatim>\<open>const char*\<close>: a pointer to the characters
  stored, and a null pointer (\<open>None\<close>) when none are stored.
\<close>

definition getPreviewFormat :: "CameraParameters \<Rightarrow> string option" where
  "getPreviewFormat p = (if preview_format p = [] then None else Some (preview_format p))"

definition getPictureSize :: "CameraParameters \<Rightarrow> int \<times> int" where
  "getPictureSize p = picture_size p"

definition getPictureFormat :: "CameraParameters \<Rightarrow> string option" where
  "getPictureFormat p = (if picture_format p = [] then None else Some (picture_format p))"

text \<open>
  The C library's \<^verbatim>\<open>strcmp\<close> on the characters before the terminating NUL: zero when the
  strings are equal, otherwise the sign of the first difference. Both arguments are
  pointers that it reads through; a caller that hands it a null pointer faults.
\<close>

fun strcmp :: "string \<Rightarrow> string \<Rightarrow> int" where
  "strcmp [] [] = 0"
| "strcmp [] (b # bs) = -1"
| "strcmp (a # as) [] = 1"
| "strcmp (a # as) (b # bs) =
     (if a = b then strcmp as bs
      else if (of_char a :: nat) < of_char b then -1 else 1)"

subsection \<open>Shared memory, callbacks and the observable events\<close>

datatype MemoryHeapBase = MemoryHeapBase int

datatype MemoryBase = MemoryBase "MemoryHeapBase option" int int

datatype PreviewThread = PreviewThread

type_synonym notify_callback = nat
type_synonym data_callback = nat
type_synonym data_callback_timestamp = nat
type_synonym user_token = nat

datatype payload = PreviewBuffer "MemoryBase option" | JpegFrame

text \<open>
  What the session does to the outside world: the calls on the capture device
  (member \<^verbatim>\<open>camera\<close>, an external collaborator), the calls through the registered
  callbacks, and the \<^verbatim>\<open>close\<close> of the file descriptor in \<^verbatim>\<open>release\<close>.
\<close>

datatype event =
    Camera_Open string int int pixel_format
  | Camera_Init
  | Camera_StartStreaming
  | Camera_Uninit
  | Camera_StopStreaming
  | Camera_Close
  | Camera_GrabPreviewFrame MemoryHeapBase
  | Camera_GrabJpegFrame
  | NotifyCall notify_callback "32 word" int int "user_token option"
  | DataCall data_callback "32 word" payload "user_token option"
  | FdClose int

text \<open>
  A call through a null function pointer is a fault, and so is a read through a null
  pointer, smart or plain.
\<close>

datatype fault = NullFunctionCall | NullDeref

subsection \<open>The session object\<close>

text \<open>
  The members of class \<^verbatim>\<open>CameraHardware\<close> that the source file uses; a null pointer is
  \<open>None\<close>. The field \<open>events\<close> is the log of the events above, oldest first, and
  \<open>autoFocusThreads\<close> counts the detached threads that \<^verbatim>\<open>autoFocus\<close> has created and
  that have not run yet.
\<close>

record CameraHardware =
  mParameters :: CameraParameters
  mHeap :: "MemoryHeapBase option"
  mPreviewHeap :: "MemoryHeapBase option"
  mRawHeap :: "MemoryHeapBase option"
  mBuffer :: "MemoryBase option"
  mPreviewFrameSize :: int
  mCurrentPreviewFrame :: int
  previewStopped :: bool
  nQueued :: int
  nDequeued :: int
  mNotifyFn :: "notify_callback option"
  mDataFn :: "data_callback option"
  mTimestampFn :: "data_callback_timestamp option"
  mUser :: "user_token option"
  mMsgEnabled :: "32 word"
  mPreviewThread :: "PreviewThread option"
  camera_device :: int
  events :: "event list"
  autoFocusThreads :: nat

definition emit :: "event \<Rightarrow> CameraHardware \<Rightarrow> CameraHardware" where
  "emit e s = s\<lparr>events := events s @ [e]\<rparr>"

section \<open>Operations\<close>

text \<open>
  Each member function becomes a function on the session that runs to completion, in the
  order of its statements. The lock \<^verbatim>\<open>mLock\<close> and the log output have no effect on the
  session and are left out; the section on interleaving further down takes
  \<^verbatim>\<open>stopPreview\<close> apart where the preview loop runs beside it.
\<close>

subsection \<open>Parameters\<close>

text \<open>
  \<^verbatim>\<open>setParameters\<close> hands the pointer of each format getter to \<^verbatim>\<open>strcmp\<close> without testing
  it: the preview format first, the picture format only when the preview format passed.
\<close>

definition setParameters ::
  "CameraParameters \<Rightarrow> CameraHardware \<Rightarrow> fault + (status_t \<times> CameraHardware)" where
  "setParameters params s =
     (case getPreviewFormat params of
        None \<Rightarrow> Inl NullDeref
      | Some previewFormat \<Rightarrow>
          if strcmp previewFormat ''yuv422sp'' \<noteq> 0 then Inr (STATUS_MINUS_ONE, s)
          else
            (case getPictureFormat params of
               None \<Rightarrow> Inl NullDeref
             | Some pictureFormat \<Rightarrow>
                 if strcmp pictureFormat ''jpeg'' \<noteq> 0 then Inr (STATUS_MINUS_ONE, s)
                 else
                   (let (w, h) = getPreviewSize params;
                        framerate = getPreviewFrameRate params;
                        (w, h) = getPictureSize params;
                        s1 = s\<lparr>mParameters := params\<rparr>;
                        s2 = s1\<lparr>mParameters :=
                               setPreviewSize MIN_WIDTH MIN_HEIGHT (mParameters s1)\<rparr>
                    in Inr (NO_ERROR, s2))))"

definition getParameters :: "CameraHardware \<Rightarrow> CameraParameters" where
  "getParameters s = mParameters s"

text \<open>
  \<^verbatim>\<open>initDefaultParameters\<close> sets both formats before it calls \<^verbatim>\<open>setParameters\<close>, so that call
  returns and never faults (lemma \<open>initDefaultParameters_request\<close> below); a status
  other than \<^verbatim>\<open>NO_ERROR\<close> would only be logged.
\<close>

definition initDefaultParameters :: "CameraHardware \<Rightarrow> CameraHardware" where
  "initDefaultParameters s =
     (let p0 = CameraParameters_empty;
          p1 = setPreviewSize MIN_WIDTH MIN_HEIGHT p0;
          p2 = setPreviewFrameRate 15 p1;
          p3 = setPreviewFormat ''yuv422sp'' p2;
          p4 = setPictureSize MIN_WIDTH MIN_HEIGHT p3;
          p5 = setPictureFormat ''jpeg'' p4
      in case setParameters p5 s of
           Inl e \<Rightarrow> s
         | Inr (r, s1) \<Rightarrow> s1)"

text \<open>
  The constructor. Its initialiser list leaves \<^verbatim>\<open>mMsgEnabled\<close> and \<^verbatim>\<open>camera_device\<close>
  uninitialised, so their first values are arguments here; the smart pointers
  \<^verbatim>\<open>mBuffer\<close> and \<^verbatim>\<open>mPreviewThread\<close> start null.
\<close>

definition CameraHardware_new :: "32 word \<Rightarrow> int \<Rightarrow> CameraHardware" where
  "CameraHardware_new msg0 fd0 =
     initDefaultParameters
       \<lparr>mParameters = CameraParameters_empty,
        mHeap = None, mPreviewHeap = None, mRawHeap = None, mBuffer = None,
        mPreviewFrameSize = 0, mCurrentPreviewFrame = 0,
        previewStopped = True, nQueued = 0, nDequeued = 0,
        mNotifyFn = None, mDataFn = None, mTimestampFn = None, mUser = None,
        mMsgEnabled = msg0, mPreviewThread = None, camera_device = fd0, events = [],
        autoFocusThreads = 0\<rparr>"

subsection \<open>Callbacks and the message mask\<close>

definition setCallbacks ::
  "notify_callback option \<Rightarrow> data_callback option \<Rightarrow> data_callback_timestamp option \<Rightarrow>
   user_token option \<Rightarrow> CameraHardware \<Rightarrow> CameraHardware" where
  "setCallbacks notify_cb data_cb data_cb_timestamp arg s =
     s\<lparr>mNotifyFn := notify_cb, mDataFn := data_cb, mTimestampFn := data_cb_timestamp,
       mUser := arg\<rparr>"

definition enableMsgType :: "32 word \<Rightarrow> CameraHardware \<Rightarrow> CameraHardware" where
  "enableMsgType msgType s = s\<lparr>mMsgEnabled := mMsgEnabled s OR msgType\<rparr>"

definition disableMsgType :: "32 word \<Rightarrow> CameraHardware \<Rightarrow> CameraHardware" where
  "disableMsgType msgType s = s\<lparr>mMsgEnabled := mMsgEnabled s AND NOT msgType\<rparr>"

definition msgTypeEnabled :: "32 word \<Rightarrow> CameraHardware \<Rightarrow> bool" where
  "msgTypeEnabled msgType s = (mMsgEnabled s AND msgType \<noteq> 0)"

text \<open>
  The two dispatch primitives of the source: the calls \<^verbatim>\<open>mNotifyFn(...)\<close> and
  \<^verbatim>\<open>mDataFn(...)\<close> through the stored function pointers. The source calls through the
  pointer without testing it.
\<close>

definition call_mNotifyFn :: "32 word \<Rightarrow> int \<Rightarrow> int \<Rightarrow> CameraHardware \<Rightarrow> fault + CameraHardware" where
  "call_mNotifyFn kind ext1 ext2 s =
     (case mNotifyFn s of
        None \<Rightarrow> Inl NullFunctionCall
      | Some f \<Rightarrow> Inr (emit (NotifyCall f kind ext1 ext2 (mUser s)) s))"

definition call_mDataFn :: "32 word \<Rightarrow> payload \<Rightarrow> CameraHardware \<Rightarrow> fault + CameraHardware" where
  "call_mDataFn kind mem s =
     (case mDataFn s of
        None \<Rightarrow> Inl NullFunctionCall
      | Some f \<Rightarrow> Inr (emit (DataCall f kind mem (mUser s)) s))"

subsection \<open>Preview\<close>

text \<open>
  The body of the \<^verbatim>\<open>if (!previewStopped)\<close> of \<^verbatim>\<open>previewThread\<close>: grab one frame into
  the heap, then dispatch it when the preview-frame kind is enabled.
\<close>

definition previewThread_body :: "CameraHardware \<Rightarrow> fault + CameraHardware" where
  "previewThread_body s =
     (case mHeap s of
        None \<Rightarrow> Inl NullDeref
      | Some heap \<Rightarrow>
          let s1 = emit (Camera_GrabPreviewFrame heap) s
          in if mMsgEnabled s1 AND CAMERA_MSG_PREVIEW_FRAME \<noteq> 0
             then call_mDataFn CAMERA_MSG_PREVIEW_FRAME (PreviewBuffer (mBuffer s1)) s1
             else Inr s1)"

definition previewThread :: "CameraHardware \<Rightarrow> fault + (status_t \<times> CameraHardware)" where
  "previewThread s =
     (case (if \<not> previewStopped s then previewThread_body s else Inr s) of
        Inl e \<Rightarrow> Inl e
      | Inr s1 \<Rightarrow> Inr (NO_ERROR, s1))"

definition startPreview :: "CameraHardware \<Rightarrow> status_t \<times> CameraHardware" where
  "startPreview s =
     (if mPreviewThread s \<noteq> None then (INVALID_OPERATION, s)
      else
        let s1 = emit (Camera_Open VIDEO_DEVICE MIN_WIDTH MIN_HEIGHT PIXEL_FORMAT) s;
            s2 = s1\<lparr>mPreviewFrameSize := MIN_WIDTH * MIN_HEIGHT * 2\<rparr>;
            s3 = s2\<lparr>mHeap := Some (MemoryHeapBase (mPreviewFrameSize s2))\<rparr>;
            s4 = s3\<lparr>mBuffer := Some (MemoryBase (mHeap s3) 0 (mPreviewFrameSize s3))\<rparr>;
            s5 = emit Camera_Init s4;
            s6 = emit Camera_StartStreaming s5;
            s7 = s6\<lparr>previewStopped := False\<rparr>;
            s8 = s7\<lparr>mPreviewThread := Some PreviewThread\<rparr>
        in (NO_ERROR, s8))"

text \<open>\<open>n\<close> further passes of the preview loop, each one call of \<^verbatim>\<open>previewThread\<close>.\<close>

fun previewLoop :: "nat \<Rightarrow> CameraHardware \<Rightarrow> fault + CameraHardware" where
  "previewLoop 0 s = Inr s"
| "previewLoop (Suc n) s =
     (case previewThread s of
        Inl e \<Rightarrow> Inl e
      | Inr (r, s1) \<Rightarrow> previewLoop n s1)"

text \<open>
  Modelled from the spec: class \<^verbatim>\<open>PreviewThread\<close> and \<^verbatim>\<open>requestExitAndWait\<close> are
  declared outside the source file. By section 4.5 the loop calls \<^verbatim>\<open>previewThread\<close>
  again and again, and by section 5 \<^verbatim>\<open>requestExitAndWait\<close> returns only when the loop
  has fully exited (join). What the loop can still do while the caller waits is
  given by two arguments: \<open>inflight\<close> says that a pass of the loop had already read
  \<^verbatim>\<open>previewStopped\<close> as false when \<^verbatim>\<open>stopPreview\<close> set it and still has its body to run,
  and \<open>n\<close> counts the passes that begin after that.
\<close>

definition requestExitAndWait :: "bool \<Rightarrow> nat \<Rightarrow> CameraHardware \<Rightarrow> fault + CameraHardware" where
  "requestExitAndWait inflight n s =
     (case (if inflight then previewThread_body s else Inr s) of
        Inl e \<Rightarrow> Inl e
      | Inr s1 \<Rightarrow> previewLoop n s1)"

definition stopPreview :: "bool \<Rightarrow> nat \<Rightarrow> CameraHardware \<Rightarrow> fault + CameraHardware" where
  "stopPreview inflight n s =
     (let s1 = s\<lparr>previewStopped := True\<rparr>;
          s2 = (if mPreviewThread s1 \<noteq> None
                then emit Camera_Close (emit Camera_StopStreaming (emit Camera_Uninit s1))
                else s1);
          previewThread_local = mPreviewThread s2
      in case (if previewThread_local \<noteq> None then requestExitAndWait inflight n s2
               else Inr s2) of
           Inl e \<Rightarrow> Inl e
         | Inr s3 \<Rightarrow> Inr (s3\<lparr>mPreviewThread := None\<rparr>))"

definition previewEnabled :: "CameraHardware \<Rightarrow> bool" where
  "previewEnabled s = (mPreviewThread s \<noteq> None)"

definition getPreviewHeap :: "CameraHardware \<Rightarrow> MemoryHeapBase option" where
  "getPreviewHeap s = mHeap s"

definition getRawHeap :: "CameraHardware \<Rightarrow> MemoryHeapBase option" where
  "getRawHeap s = mRawHeap s"

subsection \<open>Recording stubs\<close>

definition startRecording :: "CameraHardware \<Rightarrow> status_t \<times> CameraHardware" where
  "startRecording s = (UNKNOWN_ERROR, s)"

definition stopRecording :: "CameraHardware \<Rightarrow> CameraHardware" where
  "stopRecording s = s"

definition recordingEnabled :: "CameraHardware \<Rightarrow> bool" where
  "recordingEnabled s = False"

definition releaseRecordingFrame :: "MemoryBase option \<Rightarrow> CameraHardware \<Rightarrow> CameraHardware" where
  "releaseRecordingFrame mem s = s"

subsection \<open>Autofocus and still capture\<close>

definition autoFocusThread :: "CameraHardware \<Rightarrow> fault + (status_t \<times> CameraHardware)" where
  "autoFocusThread s =
     (case (if mMsgEnabled s AND CAMERA_MSG_FOCUS \<noteq> 0
            then call_mNotifyFn CAMERA_MSG_FOCUS 1 0 s else Inr s) of
        Inl e \<Rightarrow> Inl e
      | Inr s1 \<Rightarrow> Inr (NO_ERROR, s1))"

definition beginAutoFocusThread :: "CameraHardware \<Rightarrow> fault + (status_t \<times> CameraHardware)" where
  "beginAutoFocusThread c = autoFocusThread c"

text \<open>
  \<^verbatim>\<open>autoFocus\<close> asks \<^verbatim>\<open>createThread\<close> (a thread primitive outside the source file) for a
  detached thread that will run \<^verbatim>\<open>beginAutoFocusThread\<close>, and returns at once. Whether the
  thread could be created is the argument \<open>created\<close>. The call itself dispatches
  nothing: the body of a created thread runs later, on the session as it is then.
\<close>

definition autoFocus :: "bool \<Rightarrow> CameraHardware \<Rightarrow> status_t \<times> CameraHardware" where
  "autoFocus created s =
     (if created = False then (UNKNOWN_ERROR, s)
      else (NO_ERROR, s\<lparr>autoFocusThreads := autoFocusThreads s + 1\<rparr>))"

text \<open>
  One of the created threads runs: it is taken off the count and its body is executed.
  Nothing happens when no such thread is waiting.
\<close>

definition run_autoFocusThread :: "CameraHardware \<Rightarrow> fault + CameraHardware" where
  "run_autoFocusThread s =
     (if autoFocusThreads s = 0 then Inr s
      else case beginAutoFocusThread (s\<lparr>autoFocusThreads := autoFocusThreads s - 1\<rparr>) of
             Inl e \<Rightarrow> Inl e
           | Inr (r, s1) \<Rightarrow> Inr s1)"

definition cancelAutoFocus :: "CameraHardware \<Rightarrow> status_t \<times> CameraHardware" where
  "cancelAutoFocus s = (NO_ERROR, s)"

definition pictureThread :: "CameraHardware \<Rightarrow> fault + (status_t \<times> CameraHardware)" where
  "pictureThread s =
     (case (if mMsgEnabled s AND CAMERA_MSG_SHUTTER \<noteq> 0
            then call_mNotifyFn CAMERA_MSG_SHUTTER 0 0 s else Inr s) of
        Inl e \<Rightarrow> Inl e
      | Inr s1 \<Rightarrow>
         (let (w, h) = getPictureSize (mParameters s1);
              (width, height) = getPictureSize (mParameters s1);
              s2 = emit (Camera_Open VIDEO_DEVICE MIN_WIDTH MIN_HEIGHT PIXEL_FORMAT) s1;
              s3 = emit Camera_Init s2;
              s4 = emit Camera_StartStreaming s3
          in (case (if mMsgEnabled s4 AND CAMERA_MSG_COMPRESSED_IMAGE \<noteq> 0
                    then call_mDataFn CAMERA_MSG_COMPRESSED_IMAGE JpegFrame
                           (emit Camera_GrabJpegFrame s4)
                    else Inr s4) of
                Inl e \<Rightarrow> Inl e
              | Inr s5 \<Rightarrow>
                  Inr (NO_ERROR,
                       emit Camera_Close (emit Camera_StopStreaming (emit Camera_Uninit s5))))))"

definition takePicture :: "bool \<Rightarrow> nat \<Rightarrow> CameraHardware \<Rightarrow> fault + (status_t \<times> CameraHardware)" where
  "takePicture inflight n s =
     (case stopPreview inflight n s of
        Inl e \<Rightarrow> Inl e
      | Inr s1 \<Rightarrow>
          (case pictureThread s1 of
             Inl e \<Rightarrow> Inl e
           | Inr (r, s2) \<Rightarrow> Inr (NO_ERROR, s2)))"

definition cancelPicture :: "CameraHardware \<Rightarrow> status_t \<times> CameraHardware" where
  "cancelPicture s = (NO_ERROR, s)"

definition dump :: "CameraHardware \<Rightarrow> status_t" where
  "dump s = NO_ERROR"

definition sendCommand :: "32 word \<Rightarrow> 32 word \<Rightarrow> 32 word \<Rightarrow> CameraHardware \<Rightarrow> status_t \<times> CameraHardware" where
  "sendCommand command arg1 arg2 s = (BAD_VALUE, s)"

definition release :: "CameraHardware \<Rightarrow> CameraHardware" where
  "release s = emit (FdClose (camera_device s)) s"

subsection \<open>The public operations as one interface\<close>

text \<open>
  One constructor for each public member function of the class, with the arguments of the
  call. For \<^verbatim>\<open>stopPreview\<close> and \<^verbatim>\<open>takePicture\<close> the two extra arguments say what the
  preview loop still does while the call waits for it, for \<^verbatim>\<open>autoFocus\<close> the extra
  argument says whether the thread could be created.
\<close>

datatype op =
    Op_getPreviewHeap
  | Op_getRawHeap
  | Op_setCallbacks "notify_callback option" "data_callback option"
      "data_callback_timestamp option" "user_token option"
  | Op_enableMsgType "32 word"
  | Op_disableMsgType "32 word"
  | Op_msgTypeEnabled "32 word"
  | Op_startPreview
  | Op_stopPreview bool nat
  | Op_previewEnabled
  | Op_startRecording
  | Op_stopRecording
  | Op_recordingEnabled
  | Op_releaseRecordingFrame "MemoryBase option"
  | Op_autoFocus bool
  | Op_cancelAutoFocus
  | Op_takePicture bool nat
  | Op_cancelPicture
  | Op_dump
  | Op_setParameters CameraParameters
  | Op_sendCommand "32 word" "32 word" "32 word"
  | Op_getParameters
  | Op_release

text \<open>The session after one call; the calls that only read leave it as it is.\<close>

fun run_op :: "op \<Rightarrow> CameraHardware \<Rightarrow> fault + CameraHardware" where
  "run_op Op_getPreviewHeap s = Inr s"
| "run_op Op_getRawHeap s = Inr s"
| "run_op (Op_setCallbacks notify_cb data_cb data_cb_timestamp arg) s =
     Inr (setCallbacks notify_cb data_cb data_cb_timestamp arg s)"
| "run_op (Op_enableMsgType msgType) s = Inr (enableMsgType msgType s)"
| "run_op (Op_disableMsgType msgType) s = Inr (disableMsgType msgType s)"
| "run_op (Op_msgTypeEnabled msgType) s = Inr s"
| "run_op Op_startPreview s = Inr (snd (startPreview s))"
| "run_op (Op_stopPreview inflight n) s = stopPreview inflight n s"
| "run_op Op_previewEnabled s = Inr s"
| "run_op Op_startRecording s = Inr (snd (startRecording s))"
| "run_op Op_stopRecording s = Inr (stopRecording s)"
| "run_op Op_recordingEnabled s = Inr s"
| "run_op (Op_releaseRecordingFrame mem) s = Inr (releaseRecordingFrame mem s)"
| "run_op (Op_autoFocus created) s = Inr (snd (autoFocus created s))"
| "run_op Op_cancelAutoFocus s = Inr (snd (cancelAutoFocus s))"
| "run_op (Op_takePicture inflight n) s = map_sum id snd (takePicture inflight n s)"
| "run_op Op_cancelPicture s = Inr (snd (cancelPicture s))"
| "run_op Op_dump s = Inr s"
| "run_op (Op_setParameters params) s = map_sum id snd (setParameters params s)"
| "run_op (Op_sendCommand command arg1 arg2) s = Inr (snd (sendCommand command arg1 arg2 s))"
| "run_op Op_getParameters s = Inr s"
| "run_op Op_release s = Inr (release s)"

fun run_ops :: "op list \<Rightarrow> CameraHardware \<Rightarrow> fault + CameraHardware" where
  "run_ops [] s = Inr s"
| "run_ops (x # xs) s =
     (case run_op x s of
        Inl e \<Rightarrow> Inl e
      | Inr s1 \<Rightarrow> run_ops xs s1)"

text \<open>
  The sessions that a client can bring about: a newly constructed one, then any public
  call that returns, any pass of the preview loop while its thread exists, and any run
  of a thread that \<^verbatim>\<open>autoFocus\<close> has created.
\<close>

inductive reachable :: "CameraHardware \<Rightarrow> bool" where
  reachable_new: "reachable (CameraHardware_new msg0 fd0)"
| reachable_op: "reachable s \<Longrightarrow> run_op x s = Inr s1 \<Longrightarrow> reachable s1"
| reachable_loop:
    "reachable s \<Longrightarrow> previewEnabled s \<Longrightarrow> previewThread s = Inr (r, s1) \<Longrightarrow> reachable s1"
| reachable_focus: "reachable s \<Longrightarrow> run_autoFocusThread s = Inr s1 \<Longrightarrow> reachable s1"

text \<open>The calls through the callbacks among a list of events.\<close>

fun is_callback :: "event \<Rightarrow> bool" where
  "is_callback (NotifyCall f kind ext1 ext2 u) = True"
| "is_callback (DataCall f kind mem u) = True"
| "is_callback e = False"

definition callbacks :: "CameraHardware \<Rightarrow> event list" where
  "callbacks s = filter is_callback (events s)"

subsection \<open>The factory\<close>

text \<open>
  Modelled from the spec: the strong and weak handles (\<^verbatim>\<open>sp\<close>, \<^verbatim>\<open>wp\<close>) are declared outside
  the source file. By section 3 and section 9 of the spec the factory tracks the live
  session through a non-owning reference, and promoting it succeeds exactly while a
  shared handle remains. A process holds the static \<^verbatim>\<open>singleton\<close>, the session objects
  by address, and the number of strong handles on each.
\<close>

record process =
  singleton :: "nat option"
  sessions :: "nat \<Rightarrow> CameraHardware option"
  strong_refs :: "nat \<Rightarrow> nat"
  next_object :: nat

definition promote :: "nat \<Rightarrow> process \<Rightarrow> nat option \<times> process" where
  "promote h g =
     (if 0 < strong_refs g h
      then (Some h, g\<lparr>strong_refs := (strong_refs g)(h := strong_refs g h + 1)\<rparr>)
      else (None, g))"

definition new_CameraHardware :: "32 word \<Rightarrow> int \<Rightarrow> process \<Rightarrow> nat \<times> process" where
  "new_CameraHardware msg0 fd0 g =
     (let h = next_object g
      in (h, g\<lparr>sessions := (sessions g)(h := Some (CameraHardware_new msg0 fd0)),
               strong_refs := (strong_refs g)(h := 1),
               next_object := h + 1\<rparr>))"

definition createInstance :: "32 word \<Rightarrow> int \<Rightarrow> process \<Rightarrow> nat \<times> process" where
  "createInstance msg0 fd0 g =
     (case (case singleton g of
              None \<Rightarrow> (None, g)
            | Some h \<Rightarrow> promote h g) of
        (Some hardware, g1) \<Rightarrow> (hardware, g1)
      | (None, g1) \<Rightarrow>
          (let (hardware, g2) = new_CameraHardware msg0 fd0 g1;
               g3 = g2\<lparr>singleton := Some hardware\<rparr>
           in (hardware, g3)))"

definition openCameraHardware :: "32 word \<Rightarrow> int \<Rightarrow> process \<Rightarrow> nat \<times> process" where
  "openCameraHardware msg0 fd0 g = createInstance msg0 fd0 g"

text \<open>
  A client drops one strong handle. Dropping the last one destroys the session, and the
  destructor \<^verbatim>\<open>~CameraHardware\<close> clears \<^verbatim>\<open>singleton\<close>.
\<close>

definition drop_handle :: "nat \<Rightarrow> process \<Rightarrow> process" where
  "drop_handle h g =
     (if strong_refs g h = 1
      then g\<lparr>strong_refs := (strong_refs g)(h := 0),
             sessions := (sessions g)(h := None),
             singleton := None\<rparr>
      else g\<lparr>strong_refs := (strong_refs g)(h := strong_refs g h - 1)\<rparr>)"

definition live_handle :: "process \<Rightarrow> bool" where
  "live_handle g = (case singleton g of None \<Rightarrow> False | Some h \<Rightarrow> 0 < strong_refs g h)"

definition process_start :: process where
  "process_start =
     \<lparr>singleton = None, sessions = (\<lambda>h. None), strong_refs = (\<lambda>h. 0), next_object = 1\<rparr>"

section \<open>The caller and the preview loop, interleaved\<close>

text \<open>
  Modelled from the spec: class \<^verbatim>\<open>PreviewThread\<close> and its base class are declared
  outside the source file. By section 4.5 of the spec the preview loop calls
  \<^verbatim>\<open>previewThread\<close> once per pass, and by section 5 \<^verbatim>\<open>requestExitAndWait\<close> asks the loop
  to exit and returns only when it has. The client's thread and the loop take turns
  in any order. Each step below is one statement of the source: the caller walks through
  \<^verbatim>\<open>stopPreview\<close>, the loop through \<^verbatim>\<open>previewThread\<close>. \<^verbatim>\<open>startPreview\<close> is one step: its
  body runs under the lock, does nothing when a preview thread exists, and creates the
  thread in its last statement.
\<close>

datatype caller_pc =
    Caller_ready
  | Stop_flag_set
  | Stop_torn_down
  | Stop_handle_read "PreviewThread option"
  | Stop_waiting
  | Stop_joined

datatype loop_pc =
    Loop_none
  | Loop_head
  | Loop_in_body
  | Loop_grabbed
  | Loop_pass_done
  | Loop_exited

text \<open>
  The history of a run: the events of the session, and marks where a call of
  \<^verbatim>\<open>startPreview\<close> or \<^verbatim>\<open>stopPreview\<close> begins and returns.
\<close>

datatype mark =
    Call_startPreview
  | Return_startPreview status_t
  | Call_stopPreview
  | Return_stopPreview

datatype obs = Mark mark | Event event

record system =
  session :: CameraHardware
  caller :: caller_pc
  loop :: loop_pc
  exitPending :: bool
  crashed :: "fault option"
  history :: "obs list"

definition system_start :: "CameraHardware \<Rightarrow> system" where
  "system_start s =
     \<lparr>session = s, caller = Caller_ready, loop = Loop_none, exitPending = False,
      crashed = None, history = []\<rparr>"

definition observe :: "obs list \<Rightarrow> system \<Rightarrow> system" where
  "observe os c = c\<lparr>history := history c @ os\<rparr>"

definition new_events :: "CameraHardware \<Rightarrow> CameraHardware \<Rightarrow> obs list" where
  "new_events s s1 = map Event (drop (length (events s)) (events s1))"

datatype action = Begin_startPreview | Begin_stopPreview | Caller_step | Loop_step

definition begin_startPreview :: "system \<Rightarrow> system option" where
  "begin_startPreview c =
     (if caller c \<noteq> Caller_ready then None
      else
        let (r, s1) = startPreview (session c);
            c1 = observe ([Mark Call_startPreview] @ new_events (session c) s1 @
                          [Mark (Return_startPreview r)]) (c\<lparr>session := s1\<rparr>)
        in Some (if r = NO_ERROR then c1\<lparr>loop := Loop_head, exitPending := False\<rparr> else c1))"

definition begin_stopPreview :: "system \<Rightarrow> system option" where
  "begin_stopPreview c =
     (if caller c \<noteq> Caller_ready then None
      else Some (observe [Mark Call_stopPreview]
                   (c\<lparr>session := (session c)\<lparr>previewStopped := True\<rparr>,
                      caller := Stop_flag_set\<rparr>)))"

text \<open>
  The caller inside \<^verbatim>\<open>stopPreview\<close>: after the flag is set come the device teardown, the
  copy of the thread handle, the request to exit, the wait for the loop (enabled only
  once the loop has exited), and the clearing of the handle, with which the call returns.
\<close>

fun caller_step :: "caller_pc \<Rightarrow> system \<Rightarrow> system option" where
  "caller_step Caller_ready c = None"
| "caller_step Stop_flag_set c =
     (let s = session c;
          s1 = (if mPreviewThread s \<noteq> None
                then emit Camera_Close (emit Camera_StopStreaming (emit Camera_Uninit s))
                else s)
      in Some (observe (new_events s s1) (c\<lparr>session := s1, caller := Stop_torn_down\<rparr>)))"
| "caller_step Stop_torn_down c =
     Some (c\<lparr>caller := Stop_handle_read (mPreviewThread (session c))\<rparr>)"
| "caller_step (Stop_handle_read previewThread_local) c =
     (if previewThread_local \<noteq> None
      then Some (c\<lparr>exitPending := True, caller := Stop_waiting\<rparr>)
      else Some (c\<lparr>caller := Stop_joined\<rparr>))"
| "caller_step Stop_waiting c =
     (if loop c = Loop_exited then Some (c\<lparr>caller := Stop_joined\<rparr>) else None)"
| "caller_step Stop_joined c =
     Some (observe [Mark Return_stopPreview]
             (c\<lparr>session := (session c)\<lparr>mPreviewThread := None\<rparr>, caller := Caller_ready\<rparr>))"

text \<open>
  The loop: the test of \<^verbatim>\<open>previewStopped\<close>, the grab of a frame, the masked dispatch, and
  the test of the exit request after \<^verbatim>\<open>previewThread\<close> has returned.
\<close>

fun loop_step :: "loop_pc \<Rightarrow> system \<Rightarrow> system option" where
  "loop_step Loop_none c = None"
| "loop_step Loop_exited c = None"
| "loop_step Loop_head c =
     Some (if \<not> previewStopped (session c) then c\<lparr>loop := Loop_in_body\<rparr>
           else c\<lparr>loop := Loop_pass_done\<rparr>)"
| "loop_step Loop_in_body c =
     (case mHeap (session c) of
        None \<Rightarrow> Some (c\<lparr>crashed := Some NullDeref\<rparr>)
      | Some heap \<Rightarrow>
          Some (observe [Event (Camera_GrabPreviewFrame heap)]
                  (c\<lparr>session := emit (Camera_GrabPreviewFrame heap) (session c),
                     loop := Loop_grabbed\<rparr>)))"
| "loop_step Loop_grabbed c =
     (if mMsgEnabled (session c) AND CAMERA_MSG_PREVIEW_FRAME \<noteq> 0
      then (case call_mDataFn CAMERA_MSG_PREVIEW_FRAME (PreviewBuffer (mBuffer (session c)))
                   (session c) of
              Inl e \<Rightarrow> Some (c\<lparr>crashed := Some e\<rparr>)
            | Inr s1 \<Rightarrow>
                Some (observe (new_events (session c) s1)
                        (c\<lparr>session := s1, loop := Loop_pass_done\<rparr>)))
      else Some (c\<lparr>loop := Loop_pass_done\<rparr>))"
| "loop_step Loop_pass_done c =
     Some (if exitPending c then c\<lparr>loop := Loop_exited\<rparr> else c\<lparr>loop := Loop_head\<rparr>)"

definition step :: "action \<Rightarrow> system \<Rightarrow> system option" where
  "step a c =
     (if crashed c \<noteq> None then None
      else case a of
             Begin_startPreview \<Rightarrow> begin_startPreview c
           | Begin_stopPreview \<Rightarrow> begin_stopPreview c
           | Caller_step \<Rightarrow> caller_step (caller c) c
           | Loop_step \<Rightarrow> loop_step (loop c) c)"

fun run :: "action list \<Rightarrow> system \<Rightarrow> system option" where
  "run [] c = Some c"
| "run (a # as) c = (case step a c of None \<Rightarrow> None | Some c1 \<Rightarrow> run as c1)"

text \<open>
  Reading a history from the left: whether the last call to have returned is a
  \<^verbatim>\<open>stopPreview\<close> with no \<^verbatim>\<open>startPreview\<close> begun since (\<open>stopped_phase\<close>), and whether no
  event at all lies in such a stretch (\<open>quiet\<close>).
\<close>

fun stopped_phase :: "bool \<Rightarrow> obs list \<Rightarrow> bool" where
  "stopped_phase b [] = b"
| "stopped_phase b (Mark Return_stopPreview # tr) = stopped_phase True tr"
| "stopped_phase b (Mark Call_startPreview # tr) = stopped_phase False tr"
| "stopped_phase b (x # tr) = stopped_phase b tr"

fun quiet :: "bool \<Rightarrow> obs list \<Rightarrow> bool" where
  "quiet b [] = True"
| "quiet b (Mark Return_stopPreview # tr) = quiet True tr"
| "quiet b (Mark Call_startPreview # tr) = quiet False tr"
| "quiet b (Mark m # tr) = quiet b tr"
| "quiet b (Event e # tr) = (\<not> b \<and> quiet b tr)"

definition loop_dead :: "system \<Rightarrow> bool" where
  "loop_dead c = (loop c = Loop_none \<or> loop c = Loop_exited)"

definition system_inv :: "system \<Rightarrow> bool" where
  "system_inv c =
     (quiet False (history c)
      \<and> (stopped_phase False (history c) \<longrightarrow>
            mPreviewThread (session c) = None \<and> previewStopped (session c))
      \<and> (mPreviewThread (session c) = None \<longrightarrow> loop_dead c)
      \<and> (\<forall>l. caller c = Stop_handle_read l \<longrightarrow> l = mPreviewThread (session c))
      \<and> (caller c = Stop_joined \<longrightarrow> loop_dead c)
      \<and> (caller c \<noteq> Caller_ready \<longrightarrow> previewStopped (session c)))"

text \<open>
  One schedule of a whole \<^verbatim>\<open>stopPreview\<close> on a previewing session: the caller sets the
  flag, tears the device down, copies the handle and asks the loop to exit; the loop
  finishes the pass it is in and exits; the caller passes the wait and returns.
  \<open>inflight\<close> says that the loop is inside the body of its pass when the call begins.
\<close>

definition stop_schedule :: "bool \<Rightarrow> action list" where
  "stop_schedule inflight =
     [Begin_stopPreview, Caller_step, Caller_step, Caller_step] @
     (if inflight then [Loop_step, Loop_step, Loop_step] else [Loop_step, Loop_step]) @
     [Caller_step, Caller_step]"

section \<open>Auxiliary notions for the properties\<close>

text \<open>
  What holds of the stopped flag and the heap in every reachable session: without a
  preview thread the flag is set, with one it is clear and the heap is allocated.
\<close>

definition session_inv :: "CameraHardware \<Rightarrow> bool" where
  "session_inv s =
     ((mPreviewThread s = None \<longrightarrow> previewStopped s)
      \<and> (mPreviewThread s \<noteq> None \<longrightarrow> \<not> previewStopped s \<and> mHeap s \<noteq> None))"

text \<open>
  The public calls that end a preview, and those that can change \<^verbatim>\<open>previewEnabled\<close>.
\<close>

fun ends_preview :: "op \<Rightarrow> bool" where
  "ends_preview (Op_stopPreview inflight n) = True"
| "ends_preview (Op_takePicture inflight n) = True"
| "ends_preview x = False"

fun changes_preview :: "op \<Rightarrow> bool" where
  "changes_preview Op_startPreview = True"
| "changes_preview x = ends_preview x"

text \<open>
  The events of one still capture with both kinds enabled and both callbacks
  registered.
\<close>

definition capture_events :: "notify_callback \<Rightarrow> data_callback \<Rightarrow> user_token option \<Rightarrow> event list" where
  "capture_events nf df u =
     [NotifyCall nf CAMERA_MSG_SHUTTER 0 0 u,
      Camera_Open VIDEO_DEVICE MIN_WIDTH MIN_HEIGHT PIXEL_FORMAT, Camera_Init,
      Camera_StartStreaming, Camera_GrabJpegFrame,
      DataCall df CAMERA_MSG_COMPRESSED_IMAGE JpegFrame u,
      Camera_Uninit, Camera_StopStreaming, Camera_Close]"

text \<open>
  Sessions and a schedule used as concrete inputs: a new session with a preview
  started; the same with the shutter and compressed-image kinds enabled and callbacks
  registered; a new session with the preview-frame kind enabled and callbacks
  registered; and a schedule in which the client starts a preview, the loop delivers a
  frame, and the client stops the preview twice.
\<close>

definition example_previewing :: CameraHardware where
  "example_previewing = snd (startPreview (CameraHardware_new 0 3))"

definition example_capture :: CameraHardware where
  "example_capture =
     setCallbacks (Some 1) (Some 2) None (Some 7)
       (enableMsgType (CAMERA_MSG_SHUTTER OR CAMERA_MSG_COMPRESSED_IMAGE) example_previewing)"

definition example_client :: CameraHardware where
  "example_client =
     setCallbacks (Some 1) (Some 2) None (Some 7)
       (enableMsgType CAMERA_MSG_PREVIEW_FRAME (CameraHardware_new 0 3))"

definition example_schedule :: "action list" where
  "example_schedule =
     [Begin_startPreview, Loop_step, Loop_step, Loop_step, Loop_step, Loop_step,
      Begin_stopPreview, Caller_step, Caller_step, Caller_step, Loop_step, Loop_step,
      Loop_step, Caller_step, Caller_step,
      Begin_stopPreview, Caller_step, Caller_step, Caller_step, Caller_step]"

definition example_frame :: obs where
  "example_frame =
     Event (DataCall 2 CAMERA_MSG_PREVIEW_FRAME
       (PreviewBuffer (Some (MemoryBase (Some (MemoryHeapBase 614400)) 0 614400))) (Some 7))"

section \<open>Properties\<close>

subsection \<open>Basic facts\<close>

lemma strcmp_eq_0_iff: "strcmp a b = 0 \<longleftrightarrow> a = b"
  by (induction a b rule: strcmp.induct) auto

lemma setParameters_unfold:
  "setParameters params s =
     (case getPreviewFormat params of
        None \<Rightarrow> Inl NullDeref
      | Some previewFormat \<Rightarrow>
          if previewFormat \<noteq> ''yuv422sp'' then Inr (STATUS_MINUS_ONE, s)
          else
            (case getPictureFormat params of
               None \<Rightarrow> Inl NullDeref
             | Some pictureFormat \<Rightarrow>
                 if pictureFormat \<noteq> ''jpeg'' then Inr (STATUS_MINUS_ONE, s)
                 else Inr (NO_ERROR,
                        s\<lparr>mParameters := setPreviewSize MIN_WIDTH MIN_HEIGHT params\<rparr>)))"
  by (simp add: setParameters_def strcmp_eq_0_iff Let_def split: prod.split option.split)

lemma initDefaultParameters_request:
  "setParameters
     (setPictureFormat ''jpeg'' (setPictureSize MIN_WIDTH MIN_HEIGHT
        (setPreviewFormat ''yuv422sp'' (setPreviewFrameRate 15
           (setPreviewSize MIN_WIDTH MIN_HEIGHT CameraParameters_empty))))) s =
   Inr (NO_ERROR,
        s\<lparr>mParameters :=
            \<lparr>preview_size = (640, 480), preview_frame_rate = 15,
             preview_format = ''yuv422sp'', picture_size = (640, 480),
             picture_format = ''jpeg''\<rparr>\<rparr>)"
  by (simp add: setParameters_unfold CameraParameters_empty_def setPreviewSize_def
      setPreviewFrameRate_def setPreviewFormat_def setPictureSize_def setPictureFormat_def
      getPreviewFormat_def getPictureFormat_def MIN_WIDTH_def MIN_HEIGHT_def)

lemma CameraHardware_new_eq:
  "CameraHardware_new msg0 fd0 =
    \<lparr>mParameters = \<lparr>preview_size = (640, 480), preview_frame_rate = 15,
        preview_format = ''yuv422sp'', picture_size = (640, 480), picture_format = ''jpeg''\<rparr>,
     mHeap = None, mPreviewHeap = None, mRawHeap = None, mBuffer = None,
     mPreviewFrameSize = 0, mCurrentPreviewFrame = 0,
     previewStopped = True, nQueued = 0, nDequeued = 0,
     mNotifyFn = None, mDataFn = None, mTimestampFn = None, mUser = None,
     mMsgEnabled = msg0, mPreviewThread = None, camera_device = fd0, events = [],
     autoFocusThreads = 0\<rparr>"
  by (simp add: CameraHardware_new_def initDefaultParameters_def Let_def
      initDefaultParameters_request)

lemmas msg_defs = CAMERA_MSG_SHUTTER_def CAMERA_MSG_FOCUS_def CAMERA_MSG_PREVIEW_FRAME_def
  CAMERA_MSG_COMPRESSED_IMAGE_def

lemma default_parameters:
  "getParameters (CameraHardware_new msg0 fd0) =
     \<lparr>preview_size = (640, 480), preview_frame_rate = 15, preview_format = ''yuv422sp'',
      picture_size = (640, 480), picture_format = ''jpeg''\<rparr>"
  by (simp add: CameraHardware_new_eq getParameters_def)

lemma example_previewing_eq:
  "example_previewing =
    \<lparr>mParameters = \<lparr>preview_size = (640, 480), preview_frame_rate = 15,
        preview_format = ''yuv422sp'', picture_size = (640, 480), picture_format = ''jpeg''\<rparr>,
     mHeap = Some (MemoryHeapBase 614400), mPreviewHeap = None, mRawHeap = None,
     mBuffer = Some (MemoryBase (Some (MemoryHeapBase 614400)) 0 614400),
     mPreviewFrameSize = 614400, mCurrentPreviewFrame = 0,
     previewStopped = False, nQueued = 0, nDequeued = 0,
     mNotifyFn = None, mDataFn = None, mTimestampFn = None, mUser = None,
     mMsgEnabled = 0, mPreviewThread = Some PreviewThread, camera_device = 3,
     events = [Camera_Open ''/dev/video0'' 640 480 V4L2_PIX_FMT_YUYV, Camera_Init,
               Camera_StartStreaming],
     autoFocusThreads = 0\<rparr>"
  by (simp add: example_previewing_def startPreview_def CameraHardware_new_eq Let_def emit_def
      MIN_WIDTH_def MIN_HEIGHT_def VIDEO_DEVICE_def PIXEL_FORMAT_def)

lemma reachable_example_previewing: "reachable example_previewing"
proof -
  have "run_op Op_startPreview (CameraHardware_new 0 3) = Inr example_previewing"
    by (simp add: example_previewing_def)
  then show ?thesis
    using reachable_new reachable_op by blast
qed

lemma reachable_example_capture: "reachable example_capture"
proof -
  let ?s1 = "enableMsgType (CAMERA_MSG_SHUTTER OR CAMERA_MSG_COMPRESSED_IMAGE) example_previewing"
  have "run_op (Op_enableMsgType (CAMERA_MSG_SHUTTER OR CAMERA_MSG_COMPRESSED_IMAGE))
          example_previewing = Inr ?s1"
    by simp
  then have r1: "reachable ?s1"
    using reachable_example_previewing reachable_op by blast
  have "run_op (Op_setCallbacks (Some 1) (Some 2) None (Some 7)) ?s1 = Inr example_capture"
    by (simp add: example_capture_def)
  then show ?thesis
    using r1 reachable_op by blast
qed

lemma example_client_eq:
  "example_client =
    \<lparr>mParameters = \<lparr>preview_size = (640, 480), preview_frame_rate = 15,
        preview_format = ''yuv422sp'', picture_size = (640, 480), picture_format = ''jpeg''\<rparr>,
     mHeap = None, mPreviewHeap = None, mRawHeap = None, mBuffer = None,
     mPreviewFrameSize = 0, mCurrentPreviewFrame = 0,
     previewStopped = True, nQueued = 0, nDequeued = 0,
     mNotifyFn = Some 1, mDataFn = Some 2, mTimestampFn = None, mUser = Some 7,
     mMsgEnabled = 16, mPreviewThread = None, camera_device = 3, events = [],
     autoFocusThreads = 0\<rparr>"
  by (simp add: example_client_def setCallbacks_def enableMsgType_def CameraHardware_new_eq
      CAMERA_MSG_PREVIEW_FRAME_def)

subsection \<open>What the operations leave unchanged\<close>

lemma previewLoop_stopped: "previewStopped s \<Longrightarrow> previewLoop n s = Inr s"
  by (induction n) (simp_all add: previewThread_def)

lemma previewThread_fields:
  "previewThread s = Inr (r, s1) \<Longrightarrow>
     mPreviewThread s1 = mPreviewThread s \<and> previewStopped s1 = previewStopped s
     \<and> mHeap s1 = mHeap s \<and> mMsgEnabled s1 = mMsgEnabled s \<and> mDataFn s1 = mDataFn s
     \<and> mNotifyFn s1 = mNotifyFn s \<and> mUser s1 = mUser s \<and> mParameters s1 = mParameters s"
  by (auto simp: previewThread_def previewThread_body_def call_mDataFn_def emit_def Let_def
      split: if_splits option.splits sum.splits)

lemma previewLoop_fields:
  "previewLoop n s = Inr s1 \<Longrightarrow>
     mPreviewThread s1 = mPreviewThread s \<and> previewStopped s1 = previewStopped s
     \<and> mHeap s1 = mHeap s \<and> mMsgEnabled s1 = mMsgEnabled s \<and> mDataFn s1 = mDataFn s
     \<and> mNotifyFn s1 = mNotifyFn s \<and> mUser s1 = mUser s \<and> mParameters s1 = mParameters s"
proof (induction n arbitrary: s)
  case 0
  then show ?case by simp
next
  case (Suc n)
  then show ?case
    by (auto split: sum.splits dest!: previewThread_fields)
qed

lemma stopPreview_result:
  "stopPreview inflight n s = Inr s1 \<Longrightarrow> mPreviewThread s1 = None \<and> previewStopped s1 \<and> mHeap s1 = mHeap s"
  by (auto simp: stopPreview_def requestExitAndWait_def emit_def Let_def previewThread_body_def
      call_mDataFn_def
      split: if_splits sum.splits option.splits dest!: previewLoop_fields)

lemma pictureThread_fields:
  "pictureThread s = Inr (r, s1) \<Longrightarrow>
     r = NO_ERROR \<and> mPreviewThread s1 = mPreviewThread s \<and> previewStopped s1 = previewStopped s
     \<and> mHeap s1 = mHeap s"
  by (auto simp: pictureThread_def call_mNotifyFn_def call_mDataFn_def emit_def Let_def
      split: if_splits sum.splits option.splits prod.splits)

lemma takePicture_result:
  "takePicture inflight n s = Inr (r, s1) \<Longrightarrow>
     r = NO_ERROR \<and> mPreviewThread s1 = None \<and> previewStopped s1 \<and> mHeap s1 = mHeap s"
  by (auto simp: takePicture_def split: sum.splits dest!: stopPreview_result pictureThread_fields)

lemma run_autoFocusThread_fields:
  "run_autoFocusThread s = Inr s1 \<Longrightarrow>
     mPreviewThread s1 = mPreviewThread s \<and> previewStopped s1 = previewStopped s
     \<and> mHeap s1 = mHeap s"
  by (auto simp: run_autoFocusThread_def beginAutoFocusThread_def autoFocusThread_def
      call_mNotifyFn_def emit_def split: if_splits sum.splits option.splits)

lemma setParameters_fields:
  "setParameters params s = Inr (r, s1) \<Longrightarrow>
     mPreviewThread s1 = mPreviewThread s \<and> previewStopped s1 = previewStopped s
     \<and> mHeap s1 = mHeap s"
  by (auto simp: setParameters_unfold split: if_splits option.splits)

lemma session_inv_new: "session_inv (CameraHardware_new msg0 fd0)"
  by (simp add: session_inv_def CameraHardware_new_eq)

lemma run_op_session_inv: "session_inv s \<Longrightarrow> run_op x s = Inr s1 \<Longrightarrow> session_inv s1"
proof (cases x)
  case (Op_stopPreview inflight n)
  assume "run_op x s = Inr s1"
  with Op_stopPreview show ?thesis
    by (auto simp: session_inv_def dest!: stopPreview_result)
next
  case (Op_takePicture inflight n)
  assume "run_op x s = Inr s1"
  with Op_takePicture obtain r where "takePicture inflight n s = Inr (r, s1)"
    by (cases "takePicture inflight n s") auto
  then show ?thesis
    by (auto simp: session_inv_def dest!: takePicture_result)
next
  case (Op_setParameters params)
  assume i: "session_inv s" and "run_op x s = Inr s1"
  with Op_setParameters obtain r where "setParameters params s = Inr (r, s1)"
    by (cases "setParameters params s") auto
  with i show ?thesis
    by (auto simp: session_inv_def dest!: setParameters_fields)
qed (auto simp: session_inv_def setCallbacks_def enableMsgType_def disableMsgType_def
      startPreview_def startRecording_def stopRecording_def releaseRecordingFrame_def
      autoFocus_def cancelAutoFocus_def cancelPicture_def sendCommand_def release_def
      emit_def Let_def split: if_splits)

lemma reachable_session_inv: "reachable s \<Longrightarrow> session_inv s"
proof (induction rule: reachable.induct)
  case (reachable_new msg0 fd0)
  show ?case by (rule session_inv_new)
next
  case (reachable_op s x s1)
  then show ?case by (blast intro: run_op_session_inv)
next
  case (reachable_loop s r s1)
  then show ?case
    by (auto simp: session_inv_def dest!: previewThread_fields)
next
  case (reachable_focus s s1)
  then show ?case
    by (auto simp: session_inv_def dest!: run_autoFocusThread_fields)
qed

lemma run_op_previewEnabled:
  "\<not> changes_preview x \<Longrightarrow> run_op x s = Inr s1 \<Longrightarrow> previewEnabled s1 = previewEnabled s"
proof (cases x)
  case (Op_setParameters params)
  assume "run_op x s = Inr s1"
  with Op_setParameters obtain r where "setParameters params s = Inr (r, s1)"
    by (cases "setParameters params s") auto
  then have "mPreviewThread s1 = mPreviewThread s"
    using setParameters_fields by blast
  then show ?thesis
    by (simp add: previewEnabled_def)
qed (auto simp: previewEnabled_def setCallbacks_def enableMsgType_def disableMsgType_def
      startRecording_def stopRecording_def releaseRecordingFrame_def
      autoFocus_def cancelAutoFocus_def cancelPicture_def sendCommand_def release_def
      emit_def Let_def split: if_splits)

lemma run_op_keeps_preview:
  "\<not> ends_preview x \<Longrightarrow> previewEnabled s \<Longrightarrow> run_op x s = Inr s1 \<Longrightarrow> previewEnabled s1"
proof (cases "x = Op_startPreview")
  case True
  assume "previewEnabled s" and "run_op x s = Inr s1"
  with True show ?thesis by (auto simp: startPreview_def previewEnabled_def)
next
  case False
  assume "\<not> ends_preview x" and "previewEnabled s" and "run_op x s = Inr s1"
  with False show ?thesis
    using run_op_previewEnabled [of x s s1] by (cases x) auto
qed

lemma run_ops_keeps_preview:
  "\<forall>x\<in>set xs. \<not> ends_preview x \<Longrightarrow> previewEnabled s \<Longrightarrow> run_ops xs s = Inr s1
     \<Longrightarrow> previewEnabled s1"
proof (induction xs arbitrary: s)
  case Nil
  then show ?case by simp
next
  case (Cons x xs)
  then show ?case
    by (auto split: sum.splits dest: run_op_keeps_preview)
qed

subsection \<open>No preview frame after stopPreview has returned\<close>

lemma stopped_phase_append:
  "stopped_phase b (tr @ tr1) = stopped_phase (stopped_phase b tr) tr1"
  by (induction b tr rule: stopped_phase.induct) simp_all

lemma quiet_append:
  "quiet b (tr @ tr1) = (quiet b tr \<and> quiet (stopped_phase b tr) tr1)"
  by (induction b tr rule: quiet.induct) auto

lemma quiet_no_event:
  "quiet True tr \<Longrightarrow> Mark Call_startPreview \<notin> set tr \<Longrightarrow> Event e \<notin> set tr"
  by (induction "True" tr rule: quiet.induct) auto

lemma stopped_phase_stays:
  "Mark Call_startPreview \<notin> set tr \<Longrightarrow> stopped_phase True tr"
  by (induction "True" tr rule: stopped_phase.induct) auto

lemma stopped_phase_events [simp]: "stopped_phase b (map Event es) = b"
  by (induction es) simp_all

lemma quiet_events [simp]: "quiet b (map Event es) = (b \<longrightarrow> es = [])"
  by (induction es) auto

lemma system_inv_start: "mPreviewThread s = None \<Longrightarrow> system_inv (system_start s)"
  by (simp add: system_inv_def system_start_def loop_dead_def)

lemma begin_startPreview_inv:
  "system_inv c \<Longrightarrow> begin_startPreview c = Some c1 \<Longrightarrow> system_inv c1"
  by (auto simp: system_inv_def begin_startPreview_def observe_def new_events_def
      startPreview_def emit_def Let_def loop_dead_def quiet_append stopped_phase_append
      split: if_splits)

lemma begin_stopPreview_inv:
  "system_inv c \<Longrightarrow> begin_stopPreview c = Some c1 \<Longrightarrow> system_inv c1"
  by (auto simp: system_inv_def begin_stopPreview_def observe_def loop_dead_def
      quiet_append stopped_phase_append split: if_splits)

lemma caller_step_inv:
  "system_inv c \<Longrightarrow> caller_step (caller c) c = Some c1 \<Longrightarrow> system_inv c1"
  by (cases "caller c")
    (auto simp: system_inv_def observe_def new_events_def emit_def Let_def loop_dead_def
      quiet_append stopped_phase_append split: if_splits)

lemma loop_step_inv:
  "system_inv c \<Longrightarrow> loop_step (loop c) c = Some c1 \<Longrightarrow> system_inv c1"
  by (cases "loop c")
    (auto simp: system_inv_def observe_def new_events_def emit_def Let_def loop_dead_def
      call_mDataFn_def quiet_append stopped_phase_append split: if_splits option.splits)

lemma step_inv: "system_inv c \<Longrightarrow> step a c = Some c1 \<Longrightarrow> system_inv c1"
  by (cases a)
    (auto simp: step_def split: if_splits
      intro: begin_startPreview_inv begin_stopPreview_inv caller_step_inv loop_step_inv)

lemma run_inv: "system_inv c \<Longrightarrow> run acts c = Some c1 \<Longrightarrow> system_inv c1"
  by (induction acts arbitrary: c) (auto split: option.splits intro: step_inv)

text \<open>
  The function \<^verbatim>\<open>stopPreview\<close> of the section on operations is what this schedule of
  the steps computes: its two loop arguments stand for the position of the loop when
  the call begins.
\<close>

lemma stopPreview_is_a_run:
  assumes "caller c = Caller_ready" and "crashed c = None"
    and "mPreviewThread (session c) = Some t"
    and "loop c = (if inflight then Loop_in_body else Loop_head)"
    and "stopPreview inflight n (session c) = Inr s1"
  shows "map_option session (run (stop_schedule inflight) c) = Some s1"
proof -
  have stopped: "previewLoop n s = Inr s" if "previewStopped s" for s
    using that by (rule previewLoop_stopped)
  note steps = stop_schedule_def step_def begin_stopPreview_def observe_def new_events_def
    emit_def Let_def
  show ?thesis
  proof (cases inflight)
    case False
    have "s1 = (session c)\<lparr>previewStopped := True, mPreviewThread := None,
            events := events (session c) @ [Camera_Uninit, Camera_StopStreaming, Camera_Close]\<rparr>"
      using assms(3,5) False
      by (auto simp: stopPreview_def requestExitAndWait_def emit_def stopped)
    then show ?thesis
      using assms(1-4) False by (simp add: steps)
  next
    case True
    note inflight = True
    show ?thesis
    proof (cases "mHeap (session c)")
      case None
      with assms(3,5) inflight show ?thesis
        by (simp add: stopPreview_def requestExitAndWait_def previewThread_body_def emit_def)
    next
      case (Some heap)
      show ?thesis
      proof (cases "mMsgEnabled (session c) AND CAMERA_MSG_PREVIEW_FRAME = 0")
        case True
        have "s1 = (session c)\<lparr>previewStopped := True, mPreviewThread := None,
            events := events (session c) @ [Camera_Uninit, Camera_StopStreaming, Camera_Close,
              Camera_GrabPreviewFrame heap]\<rparr>"
          using assms(3,5) inflight Some True
          by (auto simp: stopPreview_def requestExitAndWait_def previewThread_body_def emit_def
              stopped)
        then show ?thesis
          using assms(1-4) inflight Some True by (simp add: steps)
      next
        case False
        show ?thesis
        proof (cases "mDataFn (session c)")
          case None
          with assms(3,5) inflight Some False show ?thesis
            by (simp add: stopPreview_def requestExitAndWait_def previewThread_body_def
                call_mDataFn_def emit_def)
        next
          case (Some df)
          have "s1 = (session c)\<lparr>previewStopped := True, mPreviewThread := None,
              events := events (session c) @ [Camera_Uninit, Camera_StopStreaming, Camera_Close,
                Camera_GrabPreviewFrame heap,
                DataCall df CAMERA_MSG_PREVIEW_FRAME (PreviewBuffer (mBuffer (session c)))
                  (mUser (session c))]\<rparr>"
            using assms(3,5) inflight \<open>mHeap (session c) = Some heap\<close> False Some
            by (auto simp: stopPreview_def requestExitAndWait_def previewThread_body_def
                call_mDataFn_def emit_def stopped)
          then show ?thesis
            using assms(1-4) inflight \<open>mHeap (session c) = Some heap\<close> False Some
            by (simp add: steps call_mDataFn_def)
        qed
      qed
    qed
  qed
qed

lemma example_history:
  "map_option history (run example_schedule (system_start example_client)) =
     Some ([Mark Call_startPreview,
            Event (Camera_Open ''/dev/video0'' 640 480 V4L2_PIX_FMT_YUYV),
            Event Camera_Init, Event Camera_StartStreaming,
            Mark (Return_startPreview NO_ERROR),
            Event (Camera_GrabPreviewFrame (MemoryHeapBase 614400)), example_frame,
            Mark Call_stopPreview, Event Camera_Uninit, Event Camera_StopStreaming,
            Event Camera_Close,
            Event (Camera_GrabPreviewFrame (MemoryHeapBase 614400)), example_frame]
           @ Mark Return_stopPreview # [Mark Call_stopPreview, Mark Return_stopPreview])"
  by (simp add: example_client_eq example_schedule_def example_frame_def system_start_def
      step_def begin_startPreview_def begin_stopPreview_def observe_def new_events_def
      startPreview_def emit_def Let_def call_mDataFn_def
      MIN_WIDTH_def MIN_HEIGHT_def VIDEO_DEVICE_def PIXEL_FORMAT_def
      CAMERA_MSG_PREVIEW_FRAME_def)

text \<open>
  Claim C1. Start from an idle session and let the client's calls of \<^verbatim>\<open>startPreview\<close> and
  \<^verbatim>\<open>stopPreview\<close> and the steps of the preview loop interleave in any order. In the
  history of the run, after a return of \<^verbatim>\<open>stopPreview\<close> and before the next call of
  \<^verbatim>\<open>startPreview\<close> there is no preview-frame data call; and throughout that stretch the
  preview loop has exited and the stopped flag is set: \<^verbatim>\<open>stopPreview\<close> sets the flag
  first and returns only after the wait for the loop.
\<close>

theorem no_preview_frame_after_stopPreview:
  assumes "mPreviewThread s = None"
    and "run acts (system_start s) = Some c"
    and "history c = xs @ Mark Return_stopPreview # ys"
    and "Mark Call_startPreview \<notin> set ys"
  shows "Event (DataCall f CAMERA_MSG_PREVIEW_FRAME mem u) \<notin> set ys
         \<and> loop_dead c \<and> previewStopped (session c)"
proof -
  have inv: "system_inv c"
    using assms(1,2) by (blast intro: system_inv_start run_inv)
  then have q: "quiet False (xs @ Mark Return_stopPreview # ys)"
    by (simp add: system_inv_def assms(3))
  then have "quiet True ys"
    by (simp add: quiet_append)
  then have quiet_ys: "Event (DataCall f CAMERA_MSG_PREVIEW_FRAME mem u) \<notin> set ys"
    using assms(4) by (rule quiet_no_event)
  have "stopped_phase True ys"
    using assms(4) by (rule stopped_phase_stays)
  then have "stopped_phase False (history c)"
    by (simp add: assms(3) stopped_phase_append)
  with inv have "loop_dead c" and "previewStopped (session c)"
    by (simp_all add: system_inv_def)
  with quiet_ys show ?thesis by simp
qed

theorem no_preview_frame_after_stopPreview_witness:
  "mPreviewThread example_client = None
   \<and> map_option history (run example_schedule (system_start example_client)) =
     Some ([Mark Call_startPreview,
            Event (Camera_Open ''/dev/video0'' 640 480 V4L2_PIX_FMT_YUYV),
            Event Camera_Init, Event Camera_StartStreaming,
            Mark (Return_startPreview NO_ERROR),
            Event (Camera_GrabPreviewFrame (MemoryHeapBase 614400)), example_frame,
            Mark Call_stopPreview, Event Camera_Uninit, Event Camera_StopStreaming,
            Event Camera_Close,
            Event (Camera_GrabPreviewFrame (MemoryHeapBase 614400)), example_frame]
           @ Mark Return_stopPreview # [Mark Call_stopPreview, Mark Return_stopPreview])
   \<and> Mark Call_startPreview \<notin> set [Mark Call_stopPreview, Mark Return_stopPreview]
   \<and> example_frame \<notin> set [Mark Call_stopPreview, Mark Return_stopPreview]"
proof -
  have idle: "mPreviewThread example_client = None"
    by (simp add: example_client_eq)
  obtain c where r: "run example_schedule (system_start example_client) = Some c"
    and h: "history c =
           [Mark Call_startPreview,
            Event (Camera_Open ''/dev/video0'' 640 480 V4L2_PIX_FMT_YUYV),
            Event Camera_Init, Event Camera_StartStreaming,
            Mark (Return_startPreview NO_ERROR),
            Event (Camera_GrabPreviewFrame (MemoryHeapBase 614400)), example_frame,
            Mark Call_stopPreview, Event Camera_Uninit, Event Camera_StopStreaming,
            Event Camera_Close,
            Event (Camera_GrabPreviewFrame (MemoryHeapBase 614400)), example_frame]
           @ Mark Return_stopPreview # [Mark Call_stopPreview, Mark Return_stopPreview]"
    using example_history by auto
  have fresh: "Mark Call_startPreview \<notin> set [Mark Call_stopPreview, Mark Return_stopPreview]"
    by simp
  have "example_frame \<notin> set [Mark Call_stopPreview, Mark Return_stopPreview]"
    using no_preview_frame_after_stopPreview [OF idle r h fresh]
    by (simp add: example_frame_def)
  then show ?thesis
    using idle example_history fresh by blast
qed

subsection \<open>takePicture\<close>

lemma pictureThread_shutter_compressed:
  assumes "mMsgEnabled s = CAMERA_MSG_SHUTTER OR CAMERA_MSG_COMPRESSED_IMAGE"
    and "mNotifyFn s = Some nf" and "mDataFn s = Some df"
  shows "pictureThread s = Inr (NO_ERROR, s\<lparr>events := events s @ capture_events nf df (mUser s)\<rparr>)"
proof -
  have sh: "mMsgEnabled s AND CAMERA_MSG_SHUTTER \<noteq> 0"
    and co: "mMsgEnabled s AND CAMERA_MSG_COMPRESSED_IMAGE \<noteq> 0"
    unfolding assms(1) by (simp_all add: msg_defs)
  show ?thesis
    using assms(2,3)
    by (simp add: pictureThread_def call_mNotifyFn_def call_mDataFn_def emit_def Let_def
        sh co capture_events_def split: prod.split)
qed

lemma stopPreview_no_preview_frame:
  assumes "session_inv s" and "mMsgEnabled s AND CAMERA_MSG_PREVIEW_FRAME = 0"
  shows "stopPreview inflight n s =
           Inr (s\<lparr>previewStopped := True, mPreviewThread := None,
                  events := events s @
                    (if previewEnabled s
                     then [Camera_Uninit, Camera_StopStreaming, Camera_Close] @
                          (case mHeap s of
                             None \<Rightarrow> []
                           | Some heap \<Rightarrow> if inflight then [Camera_GrabPreviewFrame heap] else [])
                     else [])\<rparr>)"
proof (cases "mPreviewThread s")
  case None
  with assms show ?thesis
    by (simp add: stopPreview_def previewEnabled_def session_inv_def)
next
  case (Some t)
  with assms obtain heap where h: "mHeap s = Some heap"
    by (auto simp: session_inv_def)
  show ?thesis
    using Some h assms(2)
    by (simp add: stopPreview_def requestExitAndWait_def previewThread_body_def emit_def
        Let_def previewEnabled_def previewLoop_stopped)
qed

text \<open>
  Claim C2, as amended. On a reachable session with exactly the shutter and the
  compressed-image kinds enabled and with the notify and data callbacks registered,
  \<^verbatim>\<open>takePicture\<close> returns \<^verbatim>\<open>NO_ERROR\<close>, whether or not a preview was running; the session
  is idle afterwards; and the callback calls it adds are exactly one shutter
  notification followed by one compressed-image data call, with no preview-frame call.
\<close>

theorem takePicture_shutter_compressed:
  assumes "reachable s"
    and "mMsgEnabled s = CAMERA_MSG_SHUTTER OR CAMERA_MSG_COMPRESSED_IMAGE"
    and "mNotifyFn s = Some nf" and "mDataFn s = Some df"
  shows "takePicture inflight n s =
           Inr (NO_ERROR,
                s\<lparr>previewStopped := True, mPreviewThread := None,
                  events := events s @
                    (if previewEnabled s
                     then [Camera_Uninit, Camera_StopStreaming, Camera_Close] @
                          (case mHeap s of
                             None \<Rightarrow> []
                           | Some heap \<Rightarrow> if inflight then [Camera_GrabPreviewFrame heap] else [])
                     else []) @
                    [NotifyCall nf CAMERA_MSG_SHUTTER 0 0 (mUser s),
                     Camera_Open VIDEO_DEVICE MIN_WIDTH MIN_HEIGHT PIXEL_FORMAT, Camera_Init,
                     Camera_StartStreaming, Camera_GrabJpegFrame,
                     DataCall df CAMERA_MSG_COMPRESSED_IMAGE JpegFrame (mUser s),
                     Camera_Uninit, Camera_StopStreaming, Camera_Close]\<rparr>)
         \<and> \<not> previewEnabled (snd (projr (takePicture inflight n s)))
         \<and> callbacks (snd (projr (takePicture inflight n s))) =
             callbacks s @ [NotifyCall nf CAMERA_MSG_SHUTTER 0 0 (mUser s),
                            DataCall df CAMERA_MSG_COMPRESSED_IMAGE JpegFrame (mUser s)]"
proof -
  have inv: "session_inv s"
    using assms(1) by (rule reachable_session_inv)
  have nopf: "mMsgEnabled s AND CAMERA_MSG_PREVIEW_FRAME = 0"
    unfolding assms(2) by (simp add: msg_defs)
  let ?s1 = "s\<lparr>previewStopped := True, mPreviewThread := None,
                  events := events s @
                    (if previewEnabled s
                     then [Camera_Uninit, Camera_StopStreaming, Camera_Close] @
                          (case mHeap s of
                             None \<Rightarrow> []
                           | Some heap \<Rightarrow> if inflight then [Camera_GrabPreviewFrame heap] else [])
                     else [])\<rparr>"
  have stop: "stopPreview inflight n s = Inr ?s1"
    using inv nopf by (rule stopPreview_no_preview_frame)
  have pic: "pictureThread ?s1 = Inr (NO_ERROR, ?s1\<lparr>events := events ?s1 @ capture_events nf df (mUser ?s1)\<rparr>)"
    using assms(2-4) by (intro pictureThread_shutter_compressed) simp_all
  have res: "takePicture inflight n s = Inr (NO_ERROR, ?s1\<lparr>events := events ?s1 @ capture_events nf df (mUser ?s1)\<rparr>)"
    by (simp only: takePicture_def stop pic sum.case prod.case)
  show ?thesis
    unfolding res
    by (simp add: capture_events_def previewEnabled_def callbacks_def split: option.split)
qed

theorem takePicture_shutter_compressed_witness:
  "reachable example_capture
   \<and> mMsgEnabled example_capture = CAMERA_MSG_SHUTTER OR CAMERA_MSG_COMPRESSED_IMAGE
   \<and> mNotifyFn example_capture = Some 1
   \<and> mDataFn example_capture = Some 2
   \<and> previewEnabled example_capture
   \<and> fst (projr (takePicture True 2 example_capture)) = NO_ERROR
   \<and> callbacks (snd (projr (takePicture True 2 example_capture))) =
       [NotifyCall 1 CAMERA_MSG_SHUTTER 0 0 (Some 7),
        DataCall 2 CAMERA_MSG_COMPRESSED_IMAGE JpegFrame (Some 7)]"
proof -
  have m: "mMsgEnabled example_capture = CAMERA_MSG_SHUTTER OR CAMERA_MSG_COMPRESSED_IMAGE"
    and nf: "mNotifyFn example_capture = Some 1" and df: "mDataFn example_capture = Some 2"
    and pe: "previewEnabled example_capture" and u: "mUser example_capture = Some 7"
    and cb: "callbacks example_capture = []"
    by (simp_all add: example_capture_def example_previewing_eq setCallbacks_def
        enableMsgType_def previewEnabled_def callbacks_def)
  note t = takePicture_shutter_compressed [OF reachable_example_capture m nf df, of True 2]
  have st: "fst (projr (takePicture True 2 example_capture)) = NO_ERROR"
    using t by simp
  have cs: "callbacks (snd (projr (takePicture True 2 example_capture))) =
       [NotifyCall 1 CAMERA_MSG_SHUTTER 0 0 (Some 7),
        DataCall 2 CAMERA_MSG_COMPRESSED_IMAGE JpegFrame (Some 7)]"
    using t [THEN conjunct2, THEN conjunct2] by (simp add: u cb)
  show ?thesis
    using reachable_example_capture m nf df pe st cs by simp
qed

text \<open>
  The claim as stated fails: with exactly the two kinds enabled and no callback
  registered, \<^verbatim>\<open>takePicture\<close> calls through the null notify slot and faults.
\<close>

theorem takePicture_shutter_compressed_counterexample:
  "mMsgEnabled (enableMsgType (CAMERA_MSG_SHUTTER OR CAMERA_MSG_COMPRESSED_IMAGE)
       (disableMsgType (-1) (CameraHardware_new 0 3)))
     = CAMERA_MSG_SHUTTER OR CAMERA_MSG_COMPRESSED_IMAGE
   \<and> takePicture False 0 (enableMsgType (CAMERA_MSG_SHUTTER OR CAMERA_MSG_COMPRESSED_IMAGE)
       (disableMsgType (-1) (CameraHardware_new 0 3))) = Inl NullFunctionCall"
  by (simp add: CameraHardware_new_eq enableMsgType_def disableMsgType_def
      initDefaultParameters_def setParameters_unfold Let_def
      CameraParameters_empty_def setPreviewSize_def setPreviewFrameRate_def
      setPreviewFormat_def setPictureSize_def setPictureFormat_def getPreviewFormat_def
      getPictureFormat_def takePicture_def stopPreview_def pictureThread_def
      call_mNotifyFn_def msg_defs)

subsection \<open>startPreview while previewing\<close>

text \<open>
  Claim C3. When a preview is already running (the preview-thread handle is set), a
  further \<^verbatim>\<open>startPreview\<close> returns \<^verbatim>\<open>INVALID_OPERATION\<close> (the spec's AlreadyRunning)
  and hands back the very same session: the preview is still enabled, and the heap, the
  buffer, the thread handle, the stopped flag and the event log are as they were.
\<close>

theorem startPreview_already_running:
  assumes "previewEnabled s"
  shows "startPreview s = (INVALID_OPERATION, s)
         \<and> previewEnabled (snd (startPreview s))
         \<and> mHeap (snd (startPreview s)) = mHeap s
         \<and> mBuffer (snd (startPreview s)) = mBuffer s
         \<and> mPreviewThread (snd (startPreview s)) = mPreviewThread s
         \<and> previewStopped (snd (startPreview s)) = previewStopped s
         \<and> events (snd (startPreview s)) = events s"
  using assms by (simp add: startPreview_def previewEnabled_def)

theorem startPreview_already_running_witness:
  "previewEnabled (snd (startPreview (CameraHardware_new 0 3)))
   \<and> startPreview (snd (startPreview (CameraHardware_new 0 3)))
       = (INVALID_OPERATION, snd (startPreview (CameraHardware_new 0 3)))"
  using startPreview_already_running [of "snd (startPreview (CameraHardware_new 0 3))"]
  by (simp add: startPreview_def previewEnabled_def Let_def)

subsection \<open>setParameters\<close>

text \<open>
  Claim C4, as amended. When the requested preview format is set and is not
  \<^verbatim>\<open>"yuv422sp"\<close>, or the preview format is \<^verbatim>\<open>"yuv422sp"\<close> and the requested picture format
  is set and is not \<^verbatim>\<open>"jpeg"\<close>, \<^verbatim>\<open>setParameters\<close> returns \<^verbatim>\<open>-1\<close> (the spec's
  InvalidFormat) and the session is unchanged, so \<^verbatim>\<open>getParameters\<close> afterwards returns
  the previous parameters; on a newly constructed session these are the defaults.
\<close>

theorem setParameters_invalid_format:
  assumes "(getPreviewFormat params \<noteq> None \<and> getPreviewFormat params \<noteq> Some ''yuv422sp'')
           \<or> (getPreviewFormat params = Some ''yuv422sp''
               \<and> getPictureFormat params \<noteq> None \<and> getPictureFormat params \<noteq> Some ''jpeg'')"
  shows "setParameters params s = Inr (STATUS_MINUS_ONE, s)
         \<and> getParameters (snd (projr (setParameters params s))) = getParameters s
         \<and> getParameters (snd (projr (setParameters params (CameraHardware_new msg0 fd0))))
             = \<lparr>preview_size = (640, 480), preview_frame_rate = 15,
                preview_format = ''yuv422sp'', picture_size = (640, 480),
                picture_format = ''jpeg''\<rparr>"
proof -
  have fail: "setParameters params t = Inr (STATUS_MINUS_ONE, t)" for t
    using assms by (auto simp: setParameters_unfold split: option.splits)
  show ?thesis using fail default_parameters [of msg0 fd0] by simp
qed

theorem setParameters_invalid_format_witness:
  "getPreviewFormat (CameraParameters_empty\<lparr>preview_format := ''rgb565''\<rparr>) = Some ''rgb565''
   \<and> getPictureFormat (CameraParameters_empty\<lparr>preview_format := ''rgb565''\<rparr>) = None
   \<and> setParameters (CameraParameters_empty\<lparr>preview_format := ''rgb565''\<rparr>)
        (CameraHardware_new 0 3) = Inr (STATUS_MINUS_ONE, CameraHardware_new 0 3)
   \<and> getPreviewFormat
        (CameraParameters_empty\<lparr>preview_format := ''yuv422sp'', picture_format := ''png''\<rparr>)
       = Some ''yuv422sp''
   \<and> getPictureFormat
        (CameraParameters_empty\<lparr>preview_format := ''yuv422sp'', picture_format := ''png''\<rparr>)
       = Some ''png''
   \<and> setParameters
        (CameraParameters_empty\<lparr>preview_format := ''yuv422sp'', picture_format := ''png''\<rparr>)
        example_previewing = Inr (STATUS_MINUS_ONE, example_previewing)"
proof -
  have a: "getPreviewFormat (CameraParameters_empty\<lparr>preview_format := ''rgb565''\<rparr>) = Some ''rgb565''"
    and b: "getPictureFormat (CameraParameters_empty\<lparr>preview_format := ''rgb565''\<rparr>) = None"
    and c: "getPreviewFormat
        (CameraParameters_empty\<lparr>preview_format := ''yuv422sp'', picture_format := ''png''\<rparr>)
       = Some ''yuv422sp''"
    and d: "getPictureFormat
        (CameraParameters_empty\<lparr>preview_format := ''yuv422sp'', picture_format := ''png''\<rparr>)
       = Some ''png''"
    by (simp_all add: getPreviewFormat_def getPictureFormat_def CameraParameters_empty_def)
  have e: "setParameters (CameraParameters_empty\<lparr>preview_format := ''rgb565''\<rparr>)
        (CameraHardware_new 0 3) = Inr (STATUS_MINUS_ONE, CameraHardware_new 0 3)"
    using setParameters_invalid_format
      [of "CameraParameters_empty\<lparr>preview_format := ''rgb565''\<rparr>" "CameraHardware_new 0 3"]
    by (simp add: a)
  have f: "setParameters
        (CameraParameters_empty\<lparr>preview_format := ''yuv422sp'', picture_format := ''png''\<rparr>)
        example_previewing = Inr (STATUS_MINUS_ONE, example_previewing)"
    using setParameters_invalid_format
      [of "CameraParameters_empty\<lparr>preview_format := ''yuv422sp'', picture_format := ''png''\<rparr>"
          example_previewing]
    by (simp add: c d)
  show ?thesis
    using a b c d e f by blast
qed

text \<open>
  The claim as stated fails: a request whose preview format was never set has a preview
  format that is not \<^verbatim>\<open>"yuv422sp"\<close>, and one with the preview format \<^verbatim>\<open>"yuv422sp"\<close> and no
  picture format has a picture format that is not \<^verbatim>\<open>"jpeg"\<close>; on both \<^verbatim>\<open>setParameters\<close>
  hands a null pointer to \<^verbatim>\<open>strcmp\<close> and faults instead of returning \<^verbatim>\<open>-1\<close>.
\<close>

theorem setParameters_invalid_format_counterexample:
  "getPreviewFormat CameraParameters_empty = None
   \<and> setParameters CameraParameters_empty (CameraHardware_new 0 3) = Inl NullDeref
   \<and> getPreviewFormat (setPreviewFormat ''yuv422sp'' CameraParameters_empty) = Some ''yuv422sp''
   \<and> getPictureFormat (setPreviewFormat ''yuv422sp'' CameraParameters_empty) = None
   \<and> setParameters (setPreviewFormat ''yuv422sp'' CameraParameters_empty)
        (CameraHardware_new 0 3) = Inl NullDeref"
  by (simp add: setParameters_unfold getPreviewFormat_def getPictureFormat_def
      setPreviewFormat_def CameraParameters_empty_def)

text \<open>
  Claim C5. When the requested preview format is \<^verbatim>\<open>"yuv422sp"\<close> and the requested
  picture format is \<^verbatim>\<open>"jpeg"\<close>, \<^verbatim>\<open>setParameters\<close> returns \<^verbatim>\<open>NO_ERROR\<close> and stores the
  request with its preview size replaced by 640x480, whatever size was asked for;
  the frame rate, both formats and the picture size are stored as requested.
\<close>

theorem setParameters_valid_format:
  assumes "getPreviewFormat params = Some ''yuv422sp''"
    and "getPictureFormat params = Some ''jpeg''"
  shows "setParameters params s =
           Inr (NO_ERROR, s\<lparr>mParameters := params\<lparr>preview_size := (640, 480)\<rparr>\<rparr>)
         \<and> getPreviewSize (getParameters (snd (projr (setParameters params s)))) = (640, 480)
         \<and> getPreviewFrameRate (getParameters (snd (projr (setParameters params s))))
             = getPreviewFrameRate params
         \<and> getPreviewFormat (getParameters (snd (projr (setParameters params s))))
             = getPreviewFormat params
         \<and> getPictureSize (getParameters (snd (projr (setParameters params s))))
             = getPictureSize params
         \<and> getPictureFormat (getParameters (snd (projr (setParameters params s))))
             = getPictureFormat params"
proof -
  have stored: "setParameters params s =
           Inr (NO_ERROR, s\<lparr>mParameters := params\<lparr>preview_size := (640, 480)\<rparr>\<rparr>)"
    using assms
    by (simp add: setParameters_unfold setPreviewSize_def MIN_WIDTH_def MIN_HEIGHT_def)
  show ?thesis
    by (simp add: stored getParameters_def getPreviewSize_def getPreviewFrameRate_def
        getPreviewFormat_def getPictureSize_def getPictureFormat_def)
qed

theorem setParameters_valid_format_witness:
  "getPreviewFormat \<lparr>preview_size = (1920, 1080), preview_frame_rate = 30,
        preview_format = ''yuv422sp'', picture_size = (2048, 1536), picture_format = ''jpeg''\<rparr>
     = Some ''yuv422sp''
   \<and> getPictureFormat \<lparr>preview_size = (1920, 1080), preview_frame_rate = 30,
        preview_format = ''yuv422sp'', picture_size = (2048, 1536), picture_format = ''jpeg''\<rparr>
     = Some ''jpeg''
   \<and> getParameters (snd (projr (setParameters \<lparr>preview_size = (1920, 1080), preview_frame_rate = 30,
        preview_format = ''yuv422sp'', picture_size = (2048, 1536), picture_format = ''jpeg''\<rparr>
        (CameraHardware_new 0 3))))
      = \<lparr>preview_size = (640, 480), preview_frame_rate = 30,
        preview_format = ''yuv422sp'', picture_size = (2048, 1536), picture_format = ''jpeg''\<rparr>"
  using setParameters_valid_format [of "\<lparr>preview_size = (1920, 1080), preview_frame_rate = 30,
        preview_format = ''yuv422sp'', picture_size = (2048, 1536), picture_format = ''jpeg''\<rparr>" "CameraHardware_new 0 3"]
  by (simp add: getPreviewFormat_def getPictureFormat_def getParameters_def)

subsection \<open>Dispatch with a null callback slot\<close>

text \<open>
  Claim C6, as amended. The four dispatch sites test the message mask and nothing else.
  At each site, in every session in which the slot that the site calls is null, the
  dispatch of a kind that is not enabled is a no-op and no fault, and the dispatch of a
  kind that is enabled calls through the null slot, which is a fault. The sites are the
  preview-frame data call of \<^verbatim>\<open>previewThread\<close> (reached only when the stopped flag is clear
  and the frame has been grabbed into the heap), the focus notification of
  \<^verbatim>\<open>autoFocusThread\<close>, and the shutter notification and the compressed-image data call of
  \<^verbatim>\<open>pictureThread\<close>; each function is given in full for every session whose slot is null.
\<close>

theorem dispatch_null_slot:
  "(mDataFn s = None \<longrightarrow>
      previewThread s =
        (if previewStopped s then Inr (NO_ERROR, s)
         else case mHeap s of
                None \<Rightarrow> Inl NullDeref
              | Some heap \<Rightarrow>
                  if mMsgEnabled s AND CAMERA_MSG_PREVIEW_FRAME = 0
                  then Inr (NO_ERROR, emit (Camera_GrabPreviewFrame heap) s)
                  else Inl NullFunctionCall))
   \<and> (mNotifyFn s = None \<longrightarrow>
      autoFocusThread s =
        (if mMsgEnabled s AND CAMERA_MSG_FOCUS = 0 then Inr (NO_ERROR, s)
         else Inl NullFunctionCall))
   \<and> (mNotifyFn s = None \<longrightarrow>
      pictureThread s =
        (if mMsgEnabled s AND CAMERA_MSG_SHUTTER \<noteq> 0 then Inl NullFunctionCall
         else if mMsgEnabled s AND CAMERA_MSG_COMPRESSED_IMAGE = 0
         then Inr (NO_ERROR,
                s\<lparr>events := events s @
                   [Camera_Open VIDEO_DEVICE MIN_WIDTH MIN_HEIGHT PIXEL_FORMAT, Camera_Init,
                    Camera_StartStreaming, Camera_Uninit, Camera_StopStreaming,
                    Camera_Close]\<rparr>)
         else case mDataFn s of
                None \<Rightarrow> Inl NullFunctionCall
              | Some df \<Rightarrow>
                  Inr (NO_ERROR,
                    s\<lparr>events := events s @
                       [Camera_Open VIDEO_DEVICE MIN_WIDTH MIN_HEIGHT PIXEL_FORMAT, Camera_Init,
                        Camera_StartStreaming, Camera_GrabJpegFrame,
                        DataCall df CAMERA_MSG_COMPRESSED_IMAGE JpegFrame (mUser s),
                        Camera_Uninit, Camera_StopStreaming, Camera_Close]\<rparr>)))
   \<and> (mDataFn s = None \<longrightarrow>
      pictureThread s =
        (if mMsgEnabled s AND CAMERA_MSG_COMPRESSED_IMAGE \<noteq> 0 then Inl NullFunctionCall
         else if mMsgEnabled s AND CAMERA_MSG_SHUTTER = 0
         then Inr (NO_ERROR,
                s\<lparr>events := events s @
                   [Camera_Open VIDEO_DEVICE MIN_WIDTH MIN_HEIGHT PIXEL_FORMAT, Camera_Init,
                    Camera_StartStreaming, Camera_Uninit, Camera_StopStreaming,
                    Camera_Close]\<rparr>)
         else case mNotifyFn s of
                None \<Rightarrow> Inl NullFunctionCall
              | Some nf \<Rightarrow>
                  Inr (NO_ERROR,
                    s\<lparr>events := events s @
                       [NotifyCall nf CAMERA_MSG_SHUTTER 0 0 (mUser s),
                        Camera_Open VIDEO_DEVICE MIN_WIDTH MIN_HEIGHT PIXEL_FORMAT, Camera_Init,
                        Camera_StartStreaming, Camera_Uninit, Camera_StopStreaming,
                        Camera_Close]\<rparr>)))"
proof -
  have preview: "mDataFn s = None \<longrightarrow>
      previewThread s =
        (if previewStopped s then Inr (NO_ERROR, s)
         else case mHeap s of
                None \<Rightarrow> Inl NullDeref
              | Some heap \<Rightarrow>
                  if mMsgEnabled s AND CAMERA_MSG_PREVIEW_FRAME = 0
                  then Inr (NO_ERROR, emit (Camera_GrabPreviewFrame heap) s)
                  else Inl NullFunctionCall)"
    by (simp add: previewThread_def previewThread_body_def call_mDataFn_def emit_def Let_def
        split: option.split)
  have focus: "mNotifyFn s = None \<longrightarrow>
      autoFocusThread s =
        (if mMsgEnabled s AND CAMERA_MSG_FOCUS = 0 then Inr (NO_ERROR, s)
         else Inl NullFunctionCall)"
    by (simp add: autoFocusThread_def call_mNotifyFn_def)
  have shutter: "mNotifyFn s = None \<longrightarrow>
      pictureThread s =
        (if mMsgEnabled s AND CAMERA_MSG_SHUTTER \<noteq> 0 then Inl NullFunctionCall
         else if mMsgEnabled s AND CAMERA_MSG_COMPRESSED_IMAGE = 0
         then Inr (NO_ERROR,
                s\<lparr>events := events s @
                   [Camera_Open VIDEO_DEVICE MIN_WIDTH MIN_HEIGHT PIXEL_FORMAT, Camera_Init,
                    Camera_StartStreaming, Camera_Uninit, Camera_StopStreaming,
                    Camera_Close]\<rparr>)
         else case mDataFn s of
                None \<Rightarrow> Inl NullFunctionCall
              | Some df \<Rightarrow>
                  Inr (NO_ERROR,
                    s\<lparr>events := events s @
                       [Camera_Open VIDEO_DEVICE MIN_WIDTH MIN_HEIGHT PIXEL_FORMAT, Camera_Init,
                        Camera_StartStreaming, Camera_GrabJpegFrame,
                        DataCall df CAMERA_MSG_COMPRESSED_IMAGE JpegFrame (mUser s),
                        Camera_Uninit, Camera_StopStreaming, Camera_Close]\<rparr>))"
    by (simp add: pictureThread_def call_mNotifyFn_def call_mDataFn_def emit_def Let_def
        split: prod.split option.split)
  have compressed: "mDataFn s = None \<longrightarrow>
      pictureThread s =
        (if mMsgEnabled s AND CAMERA_MSG_COMPRESSED_IMAGE \<noteq> 0 then Inl NullFunctionCall
         else if mMsgEnabled s AND CAMERA_MSG_SHUTTER = 0
         then Inr (NO_ERROR,
                s\<lparr>events := events s @
                   [Camera_Open VIDEO_DEVICE MIN_WIDTH MIN_HEIGHT PIXEL_FORMAT, Camera_Init,
                    Camera_StartStreaming, Camera_Uninit, Camera_StopStreaming,
                    Camera_Close]\<rparr>)
         else case mNotifyFn s of
                None \<Rightarrow> Inl NullFunctionCall
              | Some nf \<Rightarrow>
                  Inr (NO_ERROR,
                    s\<lparr>events := events s @
                       [NotifyCall nf CAMERA_MSG_SHUTTER 0 0 (mUser s),
                        Camera_Open VIDEO_DEVICE MIN_WIDTH MIN_HEIGHT PIXEL_FORMAT, Camera_Init,
                        Camera_StartStreaming, Camera_Uninit, Camera_StopStreaming,
                        Camera_Close]\<rparr>))"
    by (simp add: pictureThread_def call_mNotifyFn_def call_mDataFn_def emit_def Let_def
        split: prod.split option.split)
  show ?thesis
    using preview focus shutter compressed by blast
qed

theorem dispatch_null_slot_witness:
  "mNotifyFn (CameraHardware_new 0 3) = None
   \<and> mDataFn (CameraHardware_new 0 3) = None
   \<and> previewThread (CameraHardware_new 0 3) = Inr (NO_ERROR, CameraHardware_new 0 3)
   \<and> autoFocusThread (CameraHardware_new 0 3) = Inr (NO_ERROR, CameraHardware_new 0 3)
   \<and> pictureThread (CameraHardware_new 0 3) =
       Inr (NO_ERROR,
         (CameraHardware_new 0 3)\<lparr>events :=
            [Camera_Open VIDEO_DEVICE MIN_WIDTH MIN_HEIGHT PIXEL_FORMAT, Camera_Init,
             Camera_StartStreaming, Camera_Uninit, Camera_StopStreaming, Camera_Close]\<rparr>)
   \<and> autoFocusThread (enableMsgType CAMERA_MSG_FOCUS (CameraHardware_new 0 3))
       = Inl NullFunctionCall
   \<and> pictureThread (enableMsgType CAMERA_MSG_SHUTTER (CameraHardware_new 0 3))
       = Inl NullFunctionCall
   \<and> pictureThread (enableMsgType CAMERA_MSG_COMPRESSED_IMAGE (CameraHardware_new 0 3))
       = Inl NullFunctionCall
   \<and> mDataFn (setCallbacks (Some 1) None None (Some 7)
         (enableMsgType CAMERA_MSG_SHUTTER (CameraHardware_new 0 3))) = None
   \<and> pictureThread (setCallbacks (Some 1) None None (Some 7)
         (enableMsgType CAMERA_MSG_SHUTTER (CameraHardware_new 0 3)))
       = Inr (NO_ERROR,
           (setCallbacks (Some 1) None None (Some 7)
              (enableMsgType CAMERA_MSG_SHUTTER (CameraHardware_new 0 3)))\<lparr>events :=
              [NotifyCall 1 CAMERA_MSG_SHUTTER 0 0 (Some 7),
               Camera_Open VIDEO_DEVICE MIN_WIDTH MIN_HEIGHT PIXEL_FORMAT, Camera_Init,
               Camera_StartStreaming, Camera_Uninit, Camera_StopStreaming, Camera_Close]\<rparr>)
   \<and> previewThread example_previewing
       = Inr (NO_ERROR, emit (Camera_GrabPreviewFrame (MemoryHeapBase 614400)) example_previewing)
   \<and> previewThread (enableMsgType CAMERA_MSG_PREVIEW_FRAME example_previewing)
       = Inl NullFunctionCall"
proof -
  let ?idle = "CameraHardware_new 0 3"
  let ?one = "setCallbacks (Some 1) None None (Some 7)
         (enableMsgType CAMERA_MSG_SHUTTER (CameraHardware_new 0 3))"
  note defs = CameraHardware_new_eq example_previewing_eq enableMsgType_def setCallbacks_def
    msg_defs
  have slots: "mNotifyFn ?idle = None" "mDataFn ?idle = None" "mDataFn ?one = None"
    by (simp_all add: defs)
  have idle: "previewThread ?idle = Inr (NO_ERROR, ?idle)"
    "autoFocusThread ?idle = Inr (NO_ERROR, ?idle)"
    "pictureThread ?idle =
       Inr (NO_ERROR,
         ?idle\<lparr>events :=
            [Camera_Open VIDEO_DEVICE MIN_WIDTH MIN_HEIGHT PIXEL_FORMAT, Camera_Init,
             Camera_StartStreaming, Camera_Uninit, Camera_StopStreaming, Camera_Close]\<rparr>)"
    using dispatch_null_slot [of ?idle] by (simp_all add: defs)
  have focus: "autoFocusThread (enableMsgType CAMERA_MSG_FOCUS ?idle) = Inl NullFunctionCall"
    using dispatch_null_slot [of "enableMsgType CAMERA_MSG_FOCUS ?idle"] by (simp add: defs)
  have shutter: "pictureThread (enableMsgType CAMERA_MSG_SHUTTER ?idle) = Inl NullFunctionCall"
    using dispatch_null_slot [of "enableMsgType CAMERA_MSG_SHUTTER ?idle"] by (simp add: defs)
  have compressed:
    "pictureThread (enableMsgType CAMERA_MSG_COMPRESSED_IMAGE ?idle) = Inl NullFunctionCall"
    using dispatch_null_slot [of "enableMsgType CAMERA_MSG_COMPRESSED_IMAGE ?idle"]
    by (simp add: defs)
  have one: "pictureThread ?one
       = Inr (NO_ERROR,
           ?one\<lparr>events :=
              [NotifyCall 1 CAMERA_MSG_SHUTTER 0 0 (Some 7),
               Camera_Open VIDEO_DEVICE MIN_WIDTH MIN_HEIGHT PIXEL_FORMAT, Camera_Init,
               Camera_StartStreaming, Camera_Uninit, Camera_StopStreaming, Camera_Close]\<rparr>)"
    using dispatch_null_slot [of ?one] by (simp add: defs)
  have grab: "previewThread example_previewing
       = Inr (NO_ERROR, emit (Camera_GrabPreviewFrame (MemoryHeapBase 614400)) example_previewing)"
    using dispatch_null_slot [of example_previewing] by (simp add: defs)
  have frame: "previewThread (enableMsgType CAMERA_MSG_PREVIEW_FRAME example_previewing)
       = Inl NullFunctionCall"
    using dispatch_null_slot [of "enableMsgType CAMERA_MSG_PREVIEW_FRAME example_previewing"]
    by (simp add: defs)
  show ?thesis
    using slots idle focus shutter compressed one grab frame by blast
qed

text \<open>
  The claim as stated fails: with the preview-frame kind enabled, a preview started and
  no data callback registered, one pass of the preview loop faults.
\<close>

theorem dispatch_null_slot_counterexample:
  "mDataFn (snd (startPreview (enableMsgType CAMERA_MSG_PREVIEW_FRAME (CameraHardware_new 0 3)))) = None
   \<and> msgTypeEnabled CAMERA_MSG_PREVIEW_FRAME
        (snd (startPreview (enableMsgType CAMERA_MSG_PREVIEW_FRAME (CameraHardware_new 0 3))))
   \<and> previewThread (snd (startPreview (enableMsgType CAMERA_MSG_PREVIEW_FRAME (CameraHardware_new 0 3))))
       = Inl NullFunctionCall"
  by (simp add: startPreview_def CameraHardware_new_eq enableMsgType_def msgTypeEnabled_def
      Let_def emit_def previewThread_def previewThread_body_def call_mDataFn_def msg_defs)

subsection \<open>stopPreview on an idle session\<close>

text \<open>
  Claim C7. On a session with no preview running \<^verbatim>\<open>stopPreview\<close> returns without
  entering the wait for the preview loop (the result does not depend on what the loop
  would do), logs no device call, and only sets the stopped flag; on every reachable
  idle session that flag is set already, so the session is returned unchanged. A
  second \<^verbatim>\<open>stopPreview\<close> after any \<^verbatim>\<open>stopPreview\<close> that returned changes nothing.
  Taken step by step, the call on an idle session runs from its first statement to its
  return in five steps of the caller alone, none of them the wait for the loop, and adds
  nothing to the history but the marks of the call and of its return.
\<close>

theorem stopPreview_idle:
  "(\<not> previewEnabled s \<longrightarrow> stopPreview inflight n s = Inr (s\<lparr>previewStopped := True\<rparr>))
   \<and> (reachable s \<and> \<not> previewEnabled s \<longrightarrow> stopPreview inflight n s = Inr s)
   \<and> (\<forall>s1. stopPreview inflight n s = Inr s1 \<longrightarrow> stopPreview inflight' n' s1 = Inr s1)
   \<and> (\<not> previewEnabled (session c) \<and> caller c = Caller_ready \<and> crashed c = None \<longrightarrow>
        run [Begin_stopPreview, Caller_step, Caller_step, Caller_step, Caller_step] c =
          Some (c\<lparr>session := (session c)\<lparr>previewStopped := True\<rparr>,
                  history := history c @ [Mark Call_stopPreview, Mark Return_stopPreview]\<rparr>))"
proof -
  have a: "\<not> previewEnabled s \<Longrightarrow> stopPreview inflight n s = Inr (s\<lparr>previewStopped := True\<rparr>)"
    by (simp add: previewEnabled_def stopPreview_def)
  have b: "reachable s \<Longrightarrow> \<not> previewEnabled s \<Longrightarrow> stopPreview inflight n s = Inr s"
    using reachable_session_inv [of s] a by (simp add: session_inv_def previewEnabled_def)
  have c: "stopPreview inflight' n' s1 = Inr s1" if "stopPreview inflight n s = Inr s1" for s1
  proof -
    from that have "mPreviewThread s1 = None" and "previewStopped s1"
      by (auto dest!: stopPreview_result)
    then show ?thesis by (simp add: stopPreview_def)
  qed
  have d: "\<not> previewEnabled (session c) \<and> caller c = Caller_ready \<and> crashed c = None \<longrightarrow>
        run [Begin_stopPreview, Caller_step, Caller_step, Caller_step, Caller_step] c =
          Some (c\<lparr>session := (session c)\<lparr>previewStopped := True\<rparr>,
                  history := history c @ [Mark Call_stopPreview, Mark Return_stopPreview]\<rparr>)"
    by (simp add: step_def begin_stopPreview_def observe_def new_events_def previewEnabled_def)
  show ?thesis using a b c d by blast
qed

theorem stopPreview_idle_witness:
  "reachable (CameraHardware_new 0 3)
   \<and> \<not> previewEnabled (CameraHardware_new 0 3)
   \<and> stopPreview True 5 (CameraHardware_new 0 3) = Inr (CameraHardware_new 0 3)
   \<and> stopPreview False 0 example_previewing
       = Inr (example_previewing\<lparr>previewStopped := True, mPreviewThread := None,
               events := events example_previewing @
                 [Camera_Uninit, Camera_StopStreaming, Camera_Close]\<rparr>)
   \<and> stopPreview True 1 (example_previewing\<lparr>previewStopped := True, mPreviewThread := None,
               events := events example_previewing @
                 [Camera_Uninit, Camera_StopStreaming, Camera_Close]\<rparr>)
       = Inr (example_previewing\<lparr>previewStopped := True, mPreviewThread := None,
               events := events example_previewing @
                 [Camera_Uninit, Camera_StopStreaming, Camera_Close]\<rparr>)
   \<and> run [Begin_stopPreview, Caller_step, Caller_step, Caller_step, Caller_step]
         (system_start example_client)
       = Some ((system_start example_client)
                 \<lparr>history := [Mark Call_stopPreview, Mark Return_stopPreview]\<rparr>)"
proof -
  have r: "reachable (CameraHardware_new 0 3)"
    by (rule reachable_new)
  have idle: "\<not> previewEnabled (CameraHardware_new 0 3)"
    by (simp add: previewEnabled_def CameraHardware_new_eq initDefaultParameters_def
        setParameters_unfold Let_def)
  have stop: "stopPreview False 0 example_previewing
       = Inr (example_previewing\<lparr>previewStopped := True, mPreviewThread := None,
               events := events example_previewing @
                 [Camera_Uninit, Camera_StopStreaming, Camera_Close]\<rparr>)"
    by (simp add: example_previewing_eq stopPreview_def requestExitAndWait_def emit_def)
  have noop: "stopPreview True 5 (CameraHardware_new 0 3) = Inr (CameraHardware_new 0 3)"
    using stopPreview_idle [of "CameraHardware_new 0 3" True 5] r idle by blast
  have twice: "stopPreview True 1 (example_previewing\<lparr>previewStopped := True, mPreviewThread := None,
               events := events example_previewing @
                 [Camera_Uninit, Camera_StopStreaming, Camera_Close]\<rparr>)
       = Inr (example_previewing\<lparr>previewStopped := True, mPreviewThread := None,
               events := events example_previewing @
                 [Camera_Uninit, Camera_StopStreaming, Camera_Close]\<rparr>)"
    using stopPreview_idle [of example_previewing False 0 True 1] stop by blast
  have steps: "run [Begin_stopPreview, Caller_step, Caller_step, Caller_step, Caller_step]
         (system_start example_client)
       = Some ((system_start example_client)
                 \<lparr>history := [Mark Call_stopPreview, Mark Return_stopPreview]\<rparr>)"
    using stopPreview_idle [of example_client False 0 False 0 "system_start example_client"]
    by (simp add: system_start_def example_client_eq previewEnabled_def)
  show ?thesis
    using r idle noop stop twice steps by blast
qed

subsection \<open>The factory entry point\<close>

lemma createInstance_live:
  "singleton g = Some h \<Longrightarrow> 0 < strong_refs g h \<Longrightarrow>
   createInstance msg0 fd0 g = (h, g\<lparr>strong_refs := (strong_refs g)(h := strong_refs g h + 1)\<rparr>)"
  by (simp add: createInstance_def promote_def)

lemma createInstance_fresh:
  "\<not> live_handle g \<Longrightarrow>
   createInstance msg0 fd0 g =
     (next_object g,
      g\<lparr>sessions := (sessions g)(next_object g := Some (CameraHardware_new msg0 fd0)),
        strong_refs := (strong_refs g)(next_object g := 1),
        next_object := next_object g + 1,
        singleton := Some (next_object g)\<rparr>)"
  by (auto simp: createInstance_def promote_def live_handle_def new_CameraHardware_def Let_def
      split: option.splits)

lemma createInstance_live_after:
  "live_handle (snd (createInstance msg0 fd0 g))
   \<and> singleton (snd (createInstance msg0 fd0 g)) = Some (fst (createInstance msg0 fd0 g))"
proof (cases "live_handle g")
  case True
  then obtain h where "singleton g = Some h" and "0 < strong_refs g h"
    by (auto simp: live_handle_def split: option.splits)
  then show ?thesis
    by (simp add: createInstance_live live_handle_def)
next
  case False
  then show ?thesis
    by (simp add: createInstance_fresh live_handle_def)
qed

text \<open>
  Claim C8. While a live handle exists \<^verbatim>\<open>createInstance\<close> returns the handle that
  \<^verbatim>\<open>singleton\<close> tracks and constructs nothing; otherwise it constructs a new session and
  returns its handle. Two calls in a row return the same handle, and the second one
  constructs nothing. Dropping the only handle leaves no live handle, so the next call
  constructs anew. A newly constructed session has the default parameters: 640x480
  preview and picture size, 15 frames per second, \<^verbatim>\<open>"yuv422sp"\<close> preview format and
  \<^verbatim>\<open>"jpeg"\<close> picture format.
\<close>

theorem createInstance_shared:
  "(live_handle g \<longrightarrow>
      singleton g = Some (fst (createInstance msg0 fd0 g))
      \<and> sessions (snd (createInstance msg0 fd0 g)) = sessions g)
   \<and> (\<not> live_handle g \<longrightarrow>
      fst (createInstance msg0 fd0 g) = next_object g
      \<and> sessions (snd (createInstance msg0 fd0 g)) =
          (sessions g)(next_object g := Some (CameraHardware_new msg0 fd0)))
   \<and> fst (createInstance msg1 fd1 (snd (createInstance msg0 fd0 g))) = fst (createInstance msg0 fd0 g)
   \<and> sessions (snd (createInstance msg1 fd1 (snd (createInstance msg0 fd0 g)))) =
       sessions (snd (createInstance msg0 fd0 g))
   \<and> (singleton g = Some h \<and> strong_refs g h = 1 \<longrightarrow> \<not> live_handle (drop_handle h g))
   \<and> getParameters (CameraHardware_new msg0 fd0) =
       \<lparr>preview_size = (640, 480), preview_frame_rate = 15, preview_format = ''yuv422sp'',
        picture_size = (640, 480), picture_format = ''jpeg''\<rparr>"
proof -
  have live: "live_handle g \<longrightarrow>
      singleton g = Some (fst (createInstance msg0 fd0 g))
      \<and> sessions (snd (createInstance msg0 fd0 g)) = sessions g"
    by (auto simp: live_handle_def createInstance_live split: option.splits)
  have fresh: "\<not> live_handle g \<longrightarrow>
      fst (createInstance msg0 fd0 g) = next_object g
      \<and> sessions (snd (createInstance msg0 fd0 g)) =
          (sessions g)(next_object g := Some (CameraHardware_new msg0 fd0))"
    by (simp add: createInstance_fresh)
  let ?g1 = "snd (createInstance msg0 fd0 g)"
  have l1: "live_handle ?g1" and s1: "singleton ?g1 = Some (fst (createInstance msg0 fd0 g))"
    using createInstance_live_after [of msg0 fd0 g] by simp_all
  from l1 s1 have pos: "0 < strong_refs ?g1 (fst (createInstance msg0 fd0 g))"
    by (simp add: live_handle_def)
  have again: "createInstance msg1 fd1 ?g1 =
      (fst (createInstance msg0 fd0 g),
       ?g1\<lparr>strong_refs := (strong_refs ?g1)(fst (createInstance msg0 fd0 g) :=
               strong_refs ?g1 (fst (createInstance msg0 fd0 g)) + 1)\<rparr>)"
    using s1 pos by (rule createInstance_live)
  have dropped: "singleton g = Some h \<and> strong_refs g h = 1 \<longrightarrow> \<not> live_handle (drop_handle h g)"
    by (simp add: drop_handle_def live_handle_def)
  show ?thesis
    using live fresh dropped default_parameters [of msg0 fd0] by (simp add: again)
qed

theorem createInstance_shared_witness:
  "\<not> live_handle process_start
   \<and> fst (createInstance 0 3 process_start) = 1
   \<and> sessions (snd (createInstance 0 3 process_start)) 1 = Some (CameraHardware_new 0 3)
   \<and> live_handle (snd (createInstance 0 3 process_start))
   \<and> singleton (snd (createInstance 0 3 process_start)) = Some 1
   \<and> strong_refs (snd (createInstance 0 3 process_start)) 1 = 1
   \<and> fst (createInstance 5 4 (snd (createInstance 0 3 process_start))) = 1
   \<and> \<not> live_handle (drop_handle 1 (snd (createInstance 0 3 process_start)))"
proof -
  let ?g1 = "snd (createInstance 0 3 process_start)"
  have dead: "\<not> live_handle process_start"
    by (simp add: live_handle_def process_start_def)
  have n: "next_object process_start = 1"
    by (simp add: process_start_def)
  have one: "fst (createInstance 0 3 process_start) = 1"
    and ses: "sessions ?g1 1 = Some (CameraHardware_new 0 3)"
    using createInstance_shared [of process_start 0 3] dead n by simp_all
  have g1: "singleton ?g1 = Some 1" "strong_refs ?g1 1 = 1"
    by (simp_all add: createInstance_def process_start_def new_CameraHardware_def)
  then have live: "live_handle ?g1"
    by (simp add: live_handle_def)
  have same: "fst (createInstance 5 4 ?g1) = 1"
    using createInstance_shared [of ?g1 5 4] live g1 by simp
  have dropped: "\<not> live_handle (drop_handle 1 ?g1)"
    using createInstance_shared [of ?g1 _ _ _ _ 1] g1 by blast
  show ?thesis
    using dead one ses live g1 same dropped by blast
qed

subsection \<open>Autofocus, cancellation and recording stubs\<close>

text \<open>
  Claim C9, as amended. \<^verbatim>\<open>cancelAutoFocus\<close> and \<^verbatim>\<open>cancelPicture\<close> always return
  \<^verbatim>\<open>NO_ERROR\<close> and \<^verbatim>\<open>startRecording\<close> always returns \<^verbatim>\<open>UNKNOWN_ERROR\<close>, each leaving the
  session as it is. \<^verbatim>\<open>autoFocus\<close> returns \<^verbatim>\<open>NO_ERROR\<close> whenever its thread could be created,
  whatever the mask and the callbacks are, and \<^verbatim>\<open>UNKNOWN_ERROR\<close>, with no thread created,
  when it could not; the call itself dispatches nothing. When no created thread is
  waiting nothing is dispatched. A created thread, when it runs, dispatches nothing if
  the focus kind is not enabled at that time, and one focus-success notification
  through the registered notify callback if it is.
\<close>

theorem autoFocus_family:
  "cancelAutoFocus s = (NO_ERROR, s)
   \<and> cancelPicture s = (NO_ERROR, s)
   \<and> startRecording s = (UNKNOWN_ERROR, s)
   \<and> autoFocus False s = (UNKNOWN_ERROR, s)
   \<and> autoFocus True s = (NO_ERROR, s\<lparr>autoFocusThreads := autoFocusThreads s + 1\<rparr>)
   \<and> callbacks (snd (autoFocus created s)) = callbacks s
   \<and> (autoFocusThreads s = 0 \<longrightarrow> run_autoFocusThread s = Inr s)
   \<and> (0 < autoFocusThreads s \<and> mMsgEnabled s AND CAMERA_MSG_FOCUS = 0 \<longrightarrow>
        run_autoFocusThread s = Inr (s\<lparr>autoFocusThreads := autoFocusThreads s - 1\<rparr>))
   \<and> (0 < autoFocusThreads s \<and> mMsgEnabled s AND CAMERA_MSG_FOCUS \<noteq> 0
        \<and> mNotifyFn s = Some f \<longrightarrow>
        run_autoFocusThread s =
          Inr (emit (NotifyCall f CAMERA_MSG_FOCUS 1 0 (mUser s))
                 (s\<lparr>autoFocusThreads := autoFocusThreads s - 1\<rparr>)))"
  by (simp add: cancelAutoFocus_def cancelPicture_def startRecording_def autoFocus_def
      run_autoFocusThread_def beginAutoFocusThread_def autoFocusThread_def call_mNotifyFn_def
      callbacks_def emit_def)

theorem autoFocus_family_witness:
  "autoFocusThreads example_previewing = 0
   \<and> run_autoFocusThread example_previewing = Inr example_previewing
   \<and> 0 < autoFocusThreads (snd (autoFocus True example_previewing))
   \<and> mMsgEnabled (snd (autoFocus True example_previewing)) AND CAMERA_MSG_FOCUS = 0
   \<and> run_autoFocusThread (snd (autoFocus True example_previewing)) = Inr example_previewing
   \<and> 0 < autoFocusThreads (snd (autoFocus True (setCallbacks (Some 1) (Some 2) None (Some 7)
        (enableMsgType CAMERA_MSG_FOCUS example_previewing))))
   \<and> mMsgEnabled (snd (autoFocus True (setCallbacks (Some 1) (Some 2) None (Some 7)
        (enableMsgType CAMERA_MSG_FOCUS example_previewing)))) AND CAMERA_MSG_FOCUS \<noteq> 0
   \<and> mNotifyFn (snd (autoFocus True (setCallbacks (Some 1) (Some 2) None (Some 7)
        (enableMsgType CAMERA_MSG_FOCUS example_previewing)))) = Some 1
   \<and> callbacks (projr (run_autoFocusThread (snd (autoFocus True
        (setCallbacks (Some 1) (Some 2) None (Some 7)
           (enableMsgType CAMERA_MSG_FOCUS example_previewing))))))
       = [NotifyCall 1 CAMERA_MSG_FOCUS 1 0 (Some 7)]
   \<and> callbacks (projr (run_autoFocusThread (disableMsgType CAMERA_MSG_FOCUS
        (snd (autoFocus True (setCallbacks (Some 1) (Some 2) None (Some 7)
           (enableMsgType CAMERA_MSG_FOCUS example_previewing)))))))
       = []"
proof -
  let ?p = "snd (autoFocus True example_previewing)"
  let ?q = "snd (autoFocus True (setCallbacks (Some 1) (Some 2) None (Some 7)
        (enableMsgType CAMERA_MSG_FOCUS example_previewing)))"
  note defs = example_previewing_eq enableMsgType_def disableMsgType_def setCallbacks_def
    autoFocus_def msg_defs
  have none: "autoFocusThreads example_previewing = 0"
    by (simp add: defs)
  have idle: "run_autoFocusThread example_previewing = Inr example_previewing"
    using autoFocus_family [of example_previewing] none by blast
  have p: "0 < autoFocusThreads ?p" "mMsgEnabled ?p AND CAMERA_MSG_FOCUS = 0"
    by (simp_all add: defs)
  have off: "run_autoFocusThread ?p = Inr example_previewing"
    using autoFocus_family [of ?p] p by (simp add: defs)
  have q: "0 < autoFocusThreads ?q" "mMsgEnabled ?q AND CAMERA_MSG_FOCUS \<noteq> 0"
    "mNotifyFn ?q = Some 1"
    by (simp_all add: defs)
  have on: "callbacks (projr (run_autoFocusThread ?q)) = [NotifyCall 1 CAMERA_MSG_FOCUS 1 0 (Some 7)]"
    using autoFocus_family [of ?q _ 1] q by (simp add: defs callbacks_def emit_def)
  have later: "callbacks (projr (run_autoFocusThread (disableMsgType CAMERA_MSG_FOCUS ?q))) = []"
    using autoFocus_family [of "disableMsgType CAMERA_MSG_FOCUS ?q"]
    by (simp add: defs callbacks_def)
  show ?thesis
    using none idle p off q on later by blast
qed

text \<open>
  The claim as stated fails twice. When \<^verbatim>\<open>createThread\<close> reports failure, \<^verbatim>\<open>autoFocus\<close>
  returns \<^verbatim>\<open>UNKNOWN_ERROR\<close>. And with the focus kind enabled and no notify callback
  registered, \<^verbatim>\<open>autoFocus\<close> returns \<^verbatim>\<open>NO_ERROR\<close> but no focus notification is dispatched:
  the created thread calls through the null slot and faults.
\<close>

theorem autoFocus_family_counterexample:
  "autoFocus False (CameraHardware_new 0 3) = (UNKNOWN_ERROR, CameraHardware_new 0 3)
   \<and> UNKNOWN_ERROR \<noteq> NO_ERROR
   \<and> msgTypeEnabled CAMERA_MSG_FOCUS (enableMsgType CAMERA_MSG_FOCUS (CameraHardware_new 0 3))
   \<and> fst (autoFocus True (enableMsgType CAMERA_MSG_FOCUS (CameraHardware_new 0 3))) = NO_ERROR
   \<and> run_autoFocusThread
        (snd (autoFocus True (enableMsgType CAMERA_MSG_FOCUS (CameraHardware_new 0 3))))
       = Inl NullFunctionCall"
  by (simp add: autoFocus_def CameraHardware_new_eq enableMsgType_def msgTypeEnabled_def
      run_autoFocusThread_def beginAutoFocusThread_def autoFocusThread_def call_mNotifyFn_def
      msg_defs)

subsection \<open>previewEnabled\<close>

text \<open>
  Claim C10, as amended. \<^verbatim>\<open>previewEnabled\<close> reports exactly whether the preview-thread
  handle is set. It is true after \<^verbatim>\<open>startPreview\<close> and stays true over every sequence of
  public calls that contains neither \<^verbatim>\<open>stopPreview\<close> nor \<^verbatim>\<open>takePicture\<close>; it is false
  after \<^verbatim>\<open>stopPreview\<close> and after \<^verbatim>\<open>takePicture\<close> (which begins with a full
  \<^verbatim>\<open>stopPreview\<close>); every public call other than \<^verbatim>\<open>startPreview\<close>, \<^verbatim>\<open>stopPreview\<close> and
  \<^verbatim>\<open>takePicture\<close> leaves its value unchanged.
\<close>

theorem previewEnabled_tracks_handle:
  "previewEnabled s = (mPreviewThread s \<noteq> None)
   \<and> previewEnabled (snd (startPreview s))
   \<and> (\<forall>xs s1. (\<forall>x\<in>set xs. \<not> ends_preview x) \<and> run_ops xs (snd (startPreview s)) = Inr s1
         \<longrightarrow> previewEnabled s1)
   \<and> (\<forall>inflight n s1. stopPreview inflight n s = Inr s1 \<longrightarrow> \<not> previewEnabled s1)
   \<and> (\<forall>inflight n r s1. takePicture inflight n s = Inr (r, s1) \<longrightarrow> \<not> previewEnabled s1)
   \<and> (\<forall>x s1. \<not> changes_preview x \<and> run_op x s = Inr s1
         \<longrightarrow> previewEnabled s1 = previewEnabled s)"
proof -
  have started: "previewEnabled (snd (startPreview s))"
    by (simp add: startPreview_def previewEnabled_def Let_def)
  have kept: "\<forall>xs s1. (\<forall>x\<in>set xs. \<not> ends_preview x) \<and> run_ops xs (snd (startPreview s)) = Inr s1
         \<longrightarrow> previewEnabled s1"
    using started run_ops_keeps_preview by blast
  have stopped: "\<forall>inflight n s1. stopPreview inflight n s = Inr s1 \<longrightarrow> \<not> previewEnabled s1"
    by (auto simp: previewEnabled_def dest!: stopPreview_result)
  have taken: "\<forall>inflight n r s1. takePicture inflight n s = Inr (r, s1) \<longrightarrow> \<not> previewEnabled s1"
    by (auto simp: previewEnabled_def dest!: takePicture_result)
  have others: "\<forall>x s1. \<not> changes_preview x \<and> run_op x s = Inr s1
         \<longrightarrow> previewEnabled s1 = previewEnabled s"
    using run_op_previewEnabled by blast
  show ?thesis
    using started kept stopped taken others by (simp add: previewEnabled_def)
qed

theorem previewEnabled_tracks_handle_witness:
  "\<not> previewEnabled (CameraHardware_new 0 3)
   \<and> previewEnabled (snd (startPreview (CameraHardware_new 0 3)))
   \<and> previewEnabled (projr (run_ops [Op_enableMsgType CAMERA_MSG_FOCUS, Op_startPreview, Op_release]
        (snd (startPreview (CameraHardware_new 0 3)))))
   \<and> \<not> previewEnabled (projr (stopPreview False 0 example_previewing))
   \<and> \<not> previewEnabled (snd (projr (takePicture False 0 example_previewing)))
   \<and> previewEnabled (projr (run_op Op_release example_previewing))"
proof -
  note t0 = previewEnabled_tracks_handle [of "CameraHardware_new 0 3"]
  note t1 = previewEnabled_tracks_handle [of example_previewing]
  have idle: "\<not> previewEnabled (CameraHardware_new 0 3)"
    using t0 by (simp add: CameraHardware_new_eq initDefaultParameters_def
        setParameters_unfold Let_def)
  have started: "previewEnabled (snd (startPreview (CameraHardware_new 0 3)))"
    using t0 by blast
  have run: "run_ops [Op_enableMsgType CAMERA_MSG_FOCUS, Op_startPreview, Op_release]
        (snd (startPreview (CameraHardware_new 0 3)))
      = Inr (release (snd (startPreview (enableMsgType CAMERA_MSG_FOCUS
           (snd (startPreview (CameraHardware_new 0 3)))))))"
    by simp
  have kept: "previewEnabled (projr (run_ops [Op_enableMsgType CAMERA_MSG_FOCUS, Op_startPreview, Op_release]
        (snd (startPreview (CameraHardware_new 0 3)))))"
    using t0 [THEN conjunct2, THEN conjunct2, THEN conjunct1, rule_format,
        of "[Op_enableMsgType CAMERA_MSG_FOCUS, Op_startPreview, Op_release]"] run
    by simp
  have stop: "stopPreview False 0 example_previewing
       = Inr (example_previewing\<lparr>previewStopped := True, mPreviewThread := None,
               events := events example_previewing @
                 [Camera_Uninit, Camera_StopStreaming, Camera_Close]\<rparr>)"
    by (simp add: example_previewing_eq stopPreview_def requestExitAndWait_def emit_def)
  have stopped: "\<not> previewEnabled (projr (stopPreview False 0 example_previewing))"
    using t1 stop by simp
  have "\<not> isl (takePicture False 0 example_previewing)"
    by (simp add: example_previewing_eq takePicture_def stopPreview_def
        requestExitAndWait_def pictureThread_def emit_def Let_def msg_defs getPictureSize_def)
  then obtain r s1 where tp: "takePicture False 0 example_previewing = Inr (r, s1)"
    by (cases "takePicture False 0 example_previewing") auto
  have taken: "\<not> previewEnabled (snd (projr (takePicture False 0 example_previewing)))"
    using t1 tp by simp
  have rel: "previewEnabled (projr (run_op Op_release example_previewing))"
    using t1 [THEN conjunct2, THEN conjunct2, THEN conjunct2, THEN conjunct2, THEN conjunct2,
        rule_format, of Op_release "release example_previewing"]
    by (simp add: example_previewing_def startPreview_def previewEnabled_def Let_def)
  show ?thesis
    using idle started kept stopped taken rel by blast
qed

text \<open>
  The claim as stated fails: \<^verbatim>\<open>takePicture\<close> is a public call other than \<^verbatim>\<open>startPreview\<close>
  and \<^verbatim>\<open>stopPreview\<close>, and on a previewing session it turns \<^verbatim>\<open>previewEnabled\<close> from true
  to false.
\<close>

theorem previewEnabled_tracks_handle_counterexample:
  "previewEnabled example_previewing
   \<and> \<not> isl (run_op (Op_takePicture False 0) example_previewing)
   \<and> \<not> previewEnabled (projr (run_op (Op_takePicture False 0) example_previewing))"
  by (simp add: example_previewing_eq previewEnabled_def takePicture_def stopPreview_def
      requestExitAndWait_def pictureThread_def emit_def Let_def msg_defs getPictureSize_def)

end
